theory Spec2Isabelle
  imports Complex_Main
begin

section \<open>Python values\<close>

text \<open>
  The mean reward is a Python float and the running best starts as the integer
  \<open>-10000\<close>. The callback only compares and assigns these numbers, so a number is a
  real, an infinity or NaN, and \<open>py_gt\<close>, \<open>py_ge\<close> are Python's \<open>>\<close> and
  \<open>>=\<close> on them: every comparison with NaN is false.
\<close>

datatype pyfloat = Num real | PosInf | NegInf | NaN

fun py_gt :: "pyfloat \<Rightarrow> pyfloat \<Rightarrow> bool" where
  "py_gt NaN b = False"
| "py_gt a NaN = False"
| "py_gt PosInf PosInf = False"
| "py_gt PosInf b = True"
| "py_gt NegInf b = False"
| "py_gt (Num x) PosInf = False"
| "py_gt (Num x) NegInf = True"
| "py_gt (Num x) (Num y) = (y < x)"

fun py_ge :: "pyfloat \<Rightarrow> pyfloat \<Rightarrow> bool" where
  "py_ge NaN b = False"
| "py_ge a NaN = False"
| "py_ge PosInf b = True"
| "py_ge NegInf NegInf = True"
| "py_ge NegInf b = False"
| "py_ge (Num x) PosInf = False"
| "py_ge (Num x) NegInf = True"
| "py_ge (Num x) (Num y) = (y \<le> x)"

text \<open>
  A dictionary value is a scalar or an object of one of the libraries, known by its
  identity only: \<open>PyModel n\<close> is an object with a \<open>save\<close> method (a model, or the
  \<open>act\<close> of deepq), \<open>PyObj n\<close> any other object, which has no attribute \<open>save\<close>.
  A dictionary is an association list read with \<open>map_of\<close>.
\<close>

datatype pyval =
    PyNone | PyBool bool | PyInt int | PyFloat pyfloat | PyStr string | PyObj nat | PyModel nat

type_synonym pydict = "(string \<times> pyval) list"

datatype error =
    KeyError string
  | AttributeError string
  | ZeroDivisionError
  | ValueError string
  | UnboundLocalError string

section \<open>Module state of \<open>rl_baselines/train.py\<close>\<close>

text \<open>
  \<open>viz\<close> is \<open>None\<close> when the module is loaded, \<open>False\<close> after \<open>--no-vis\<close>, and
  the \<open>Visdom\<close> client (known by its port) once the callback has connected.
\<close>

datatype viz_val = VNone | VFalse | VVisdom int

fun truthy :: "viz_val \<Rightarrow> bool" where
  "truthy VNone = False"
| "truthy VFalse = False"
| "truthy (VVisdom p) = True"

type_synonym window = "string option"

record globals =
  VISDOM_PORT :: int
  LOG_INTERVAL :: int
  LOG_DIR :: string
  ALGO :: string
  ENV_NAME :: string
  PLOT_TITLE :: string
  viz :: viz_val
  n_steps :: int
  SAVE_INTERVAL :: int
  params_saved :: bool
  best_mean_reward :: pyfloat
  win :: window
  win_smooth :: window
  win_episodes :: window

definition EPISODE_WINDOW :: int where
  "EPISODE_WINDOW = 40"

definition N_EPISODES_EVAL :: int where
  "N_EPISODES_EVAL = 50"

definition initial_globals :: globals where
  "initial_globals =
     \<lparr> VISDOM_PORT = 8097, LOG_INTERVAL = 100, LOG_DIR = '''', ALGO = '''', ENV_NAME = '''',
       PLOT_TITLE = ''Raw Pixels'', viz = VNone, n_steps = 0, SAVE_INTERVAL = 500,
       params_saved = False, best_mean_reward = Num (- 10000),
       win = None, win_smooth = None, win_episodes = None \<rparr>"

text \<open>The parsed command line: the ten flags of \<open>main\<close> and what \<open>customArguments\<close> added.\<close>

record args =
  algo :: string
  env :: string
  seed :: int
  log_dir :: string
  num_timesteps :: int
  srl_model :: string
  num_stack :: int
  action_repeat :: int
  port :: int
  no_vis :: bool
  custom :: pydict

definition vars :: "args \<Rightarrow> pydict" where
  "vars a =
     [(''algo'', PyStr (algo a)), (''env'', PyStr (env a)), (''seed'', PyInt (seed a)),
      (''log_dir'', PyStr (log_dir a)), (''num_timesteps'', PyInt (num_timesteps a)),
      (''srl_model'', PyStr (srl_model a)), (''num_stack'', PyInt (num_stack a)),
      (''action_repeat'', PyInt (action_repeat a)), (''port'', PyInt (port a)),
      (''no_vis'', PyBool (no_vis a))] @ custom a"

text \<open>The attributes of the \<open>kuka_env\<close> module that this file assigns.\<close>

record kuka_env =
  USE_GROUND_TRUTH :: bool
  USE_SRL :: bool
  SRL_MODEL_PATH :: "string option"
  ACTION_REPEAT :: int

section \<open>Effects and collaborators\<close>

text \<open>
  Every call that leaves the file is an event of the trace, with the arguments the
  source passes. \<open>Json_dump p d\<close> is \<open>open(p, "w")\<close> followed by \<open>json.dump(d, f)\<close>;
  \<open>Model_save m p\<close> is the call \<open>m.save(p)\<close>; an optional argument left to the
  callee's default is \<open>None\<close>.
\<close>

datatype event =
    Visdom_connect int
  | Json_dump string pydict
  | Compute_mean_reward string int
  | Print_rewards pyfloat pyfloat
  | Model_save pyval string
  | Visdom_plot viz_val window string string string "int option" "int option" string
  | Episode_plot viz_val window string string string int string
  | Make_dirs string
  | Print_green string
  | Print_yellow string
  | Pprint pydict
  | Custom_arguments string
  | Parse_args
  | Set_global_seeds int
  | Algo_main string args

text \<open>
  What the collaborators answer is a parameter: the functions of \<open>rl_baselines.utils\<close>,
  \<open>pytorch_agents.visualize\<close> and \<open>kuka_env\<close>, the table read from
  \<open>config/srl_models.yaml\<close> and the clock (\<open>strftime_now\<close> is
  \<open>datetime.now().strftime("%d-%m-%y_%Hh%M_%S")\<close>). They are taken to return; a
  failure inside them is theirs.
\<close>

record world =
  filterJSONSerializableObjects :: "pydict \<Rightarrow> pydict"
  computeMeanReward :: "string \<Rightarrow> int \<Rightarrow> bool \<times> pyfloat"
  visdom_plot :: "viz_val \<Rightarrow> window \<Rightarrow> string \<Rightarrow> string \<Rightarrow> string \<Rightarrow> int option \<Rightarrow> int option \<Rightarrow> string \<Rightarrow> window"
  episode_plot :: "viz_val \<Rightarrow> window \<Rightarrow> string \<Rightarrow> string \<Rightarrow> string \<Rightarrow> int \<Rightarrow> string \<Rightarrow> window"
  getGlobals :: "kuka_env \<Rightarrow> pydict"
  models :: "(string \<times> string) list"
  strftime_now :: string

section \<open>\<open>saveEnvParams\<close>\<close>

definition saveEnvParams :: "world \<Rightarrow> kuka_env \<Rightarrow> globals \<Rightarrow> event list" where
  "saveEnvParams w kuka g =
     (let params = filterJSONSerializableObjects w (getGlobals w kuka)
      in [Json_dump (LOG_DIR g @ ''kuka_env_globals.json'') params])"

section \<open>\<open>configureEnvAndLogFolder\<close>\<close>

text \<open>
  \<open>args\<close> and the module are mutable objects, so the function gives back both as it
  left them, also when it raises: (result, args, kuka_env, trace, globals).
\<close>

definition configure_srl ::
  "world \<Rightarrow> args \<Rightarrow> kuka_env \<Rightarrow> globals \<Rightarrow> error option \<times> args \<times> kuka_env \<times> globals" where
  "configure_srl w a kuka g =
     (if srl_model a \<noteq> '''' then
        (let g1 = g\<lparr>PLOT_TITLE := srl_model a\<rparr>;
             path = map_of (models w) (srl_model a);
             a1 = a\<lparr>log_dir := log_dir a @ srl_model a @ ''/''\<rparr>
         in if srl_model a = ''ground_truth'' then
              (None, a1, kuka\<lparr>USE_GROUND_TRUTH := True\<rparr>, g1\<lparr>PLOT_TITLE := ''Ground Truth''\<rparr>)
            else (case path of
                Some p \<Rightarrow>
                  (case map_of (models w) ''log_folder'' of
                     None \<Rightarrow> (Some (KeyError ''log_folder''), a1, kuka\<lparr>USE_SRL := True\<rparr>, g1)
                   | Some folder \<Rightarrow>
                       (None, a1, kuka\<lparr>USE_SRL := True, SRL_MODEL_PATH := Some (folder @ p)\<rparr>, g1))
              | None \<Rightarrow>
                  (Some (ValueError (''Unsupported value for srl-model: '' @ srl_model a)),
                   a1, kuka, g1)))
      else (None, a\<lparr>log_dir := log_dir a @ ''raw_pixels/''\<rparr>, kuka, g))"

definition configureEnvAndLogFolder ::
  "world \<Rightarrow> args \<Rightarrow> kuka_env \<Rightarrow> globals
     \<Rightarrow> (error + args) \<times> args \<times> kuka_env \<times> event list \<times> globals" where
  "configureEnvAndLogFolder w a kuka g =
     (case configure_srl w a kuka g of
        (Some e, a1, kuka1, g1) \<Rightarrow> (Inl e, a1, kuka1, [], g1)
      | (None, a1, kuka1, g1) \<Rightarrow>
          (let a2 = a1\<lparr>log_dir := log_dir a1 @ ALGO g1 @ ''/'' @ strftime_now w @ ''/''\<rparr>;
               g2 = g1\<lparr>LOG_DIR := log_dir a2\<rparr>
           in (Inr a2, a2, kuka1, [Make_dirs (log_dir a2)], g2)))"

section \<open>\<open>callback\<close>\<close>

definition callback_connect :: "globals \<Rightarrow> event list \<times> globals" where
  "callback_connect g =
     (if viz g = VNone
      then ([Visdom_connect (VISDOM_PORT g)], g\<lparr>viz := VVisdom (VISDOM_PORT g)\<rparr>)
      else ([], g))"

definition callback_params :: "world \<Rightarrow> pydict \<Rightarrow> globals \<Rightarrow> event list \<times> globals" where
  "callback_params w locals g =
     (if \<not> params_saved g then
        (let params = filterJSONSerializableObjects w locals
         in ([Json_dump (LOG_DIR g @ ''rl_locals.json'') params], g\<lparr>params_saved := True\<rparr>))
      else ([], g))"

text \<open>
  The expression \<open>m.save(p)\<close> of lines 120 to 126: the attribute \<open>save\<close> is looked up
  first, and a value without it (\<open>None\<close>, a number, a string, an object of another
  class) raises AttributeError before anything is called.
\<close>

fun has_save :: "pyval \<Rightarrow> bool" where
  "has_save (PyModel n) = True"
| "has_save v = False"

definition call_save :: "pyval \<Rightarrow> string \<Rightarrow> error option \<times> event list" where
  "call_save m p =
     (if has_save m then (None, [Model_save m p]) else (Some (AttributeError ''save''), []))"

text \<open>
  The \<open>if\<close>/\<open>elif\<close> chain on \<open>ALGO\<close>: the subscript \<open>_locals[key]\<close> raises KeyError
  when the key is missing, then the value found is asked to save itself.
\<close>

definition save_model :: "pydict \<Rightarrow> globals \<Rightarrow> error option \<times> event list" where
  "save_model locals g =
     (if ALGO g = ''deepq'' then
        (case map_of locals ''act'' of
           None \<Rightarrow> (Some (KeyError ''act''), [])
         | Some m \<Rightarrow> call_save m (LOG_DIR g @ ''deepq_model.pkl''))
      else if ALGO g = ''acer'' then
        (case map_of locals ''model'' of
           None \<Rightarrow> (Some (KeyError ''model''), [])
         | Some m \<Rightarrow> call_save m (LOG_DIR g @ ''acer_model.pkl''))
      else if ALGO g = ''a2c'' then
        (case map_of locals ''model'' of
           None \<Rightarrow> (Some (KeyError ''model''), [])
         | Some m \<Rightarrow> call_save m (LOG_DIR g @ ''a2c_model.pkl''))
      else if ALGO g = ''ppo2'' then
        (case map_of locals ''model'' of
           None \<Rightarrow> (Some (KeyError ''model''), [])
         | Some m \<Rightarrow> call_save m (LOG_DIR g @ ''ppo2_model.pkl''))
      else (None, []))"

text \<open>The mean reward line 117 compares: the one computed, or \<open>-10000\<close> when not \<open>ok\<close>.\<close>

definition mean_reward :: "world \<Rightarrow> globals \<Rightarrow> pyfloat" where
  "mean_reward w g =
     (case computeMeanReward w (LOG_DIR g) N_EPISODES_EVAL of
        (ok, mr) \<Rightarrow> if ok then mr else Num (- 10000))"

definition callback_checkpoint ::
  "world \<Rightarrow> pydict \<Rightarrow> globals \<Rightarrow> error option \<times> event list \<times> globals" where
  "callback_checkpoint w locals g =
     (if SAVE_INTERVAL g = 0 then (Some ZeroDivisionError, [], g)
      else if (n_steps g + 1) mod SAVE_INTERVAL g = 0 then
        (let evaluated =
               Compute_mean_reward (LOG_DIR g) N_EPISODES_EVAL #
               (case computeMeanReward w (LOG_DIR g) N_EPISODES_EVAL of
                  (ok, mr) \<Rightarrow> if ok then [Print_rewards (best_mean_reward g) mr] else [])
         in if py_gt (mean_reward w g) (best_mean_reward g) then
              (let g1 = g\<lparr>best_mean_reward := mean_reward w g\<rparr>
               in case save_model locals g1 of (err, saved) \<Rightarrow> (err, evaluated @ saved, g1))
            else (None, evaluated, g))
      else (None, [], g))"

definition callback_plot :: "world \<Rightarrow> globals \<Rightarrow> error option \<times> event list \<times> globals" where
  "callback_plot w g =
     (if \<not> truthy (viz g) then (None, [], g)
      else if LOG_INTERVAL g = 0 then (Some ZeroDivisionError, [], g)
      else if (n_steps g + 1) mod LOG_INTERVAL g = 0 then
        (let g1 = g\<lparr>win := visdom_plot w (viz g) (win g) (LOG_DIR g) (ENV_NAME g) (ALGO g)
                              (Some 1) (Some 0) (PLOT_TITLE g)\<rparr>;
             g2 = g1\<lparr>win_smooth := visdom_plot w (viz g) (win_smooth g) (LOG_DIR g) (ENV_NAME g)
                              (ALGO g) None None (PLOT_TITLE g @ '' smoothed'')\<rparr>;
             g3 = g2\<lparr>win_episodes := episode_plot w (viz g) (win_episodes g) (LOG_DIR g)
                              (ENV_NAME g) (ALGO g) EPISODE_WINDOW (PLOT_TITLE g @ '' [Episodes]'')\<rparr>
         in (None,
             [Visdom_plot (viz g) (win g) (LOG_DIR g) (ENV_NAME g) (ALGO g) (Some 1) (Some 0)
                (PLOT_TITLE g),
              Visdom_plot (viz g) (win_smooth g) (LOG_DIR g) (ENV_NAME g) (ALGO g) None None
                (PLOT_TITLE g @ '' smoothed''),
              Episode_plot (viz g) (win_episodes g) (LOG_DIR g) (ENV_NAME g) (ALGO g)
                EPISODE_WINDOW (PLOT_TITLE g @ '' [Episodes]'')],
             g3))
      else (None, [], g))"

text \<open>
  One invocation: (result, trace, globals). A raise leaves the globals as they were at
  the raise, so \<open>n_steps\<close> is not incremented then.
\<close>

definition callback :: "world \<Rightarrow> pydict \<Rightarrow> globals \<Rightarrow> (error + bool) \<times> event list \<times> globals" where
  "callback w locals g =
     (case callback_connect g of (es1, g1) \<Rightarrow>
     (case callback_params w locals g1 of (es2, g2) \<Rightarrow>
     (case callback_checkpoint w locals g2 of
        (Some e, es3, g3) \<Rightarrow> (Inl e, es1 @ es2 @ es3, g3)
      | (None, es3, g3) \<Rightarrow>
          (case callback_plot w g3 of
             (Some e, es4, g4) \<Rightarrow> (Inl e, es1 @ es2 @ es3 @ es4, g4)
           | (None, es4, g4) \<Rightarrow>
               (Inr False, es1 @ es2 @ es3 @ es4, g4\<lparr>n_steps := n_steps g4 + 1\<rparr>)))))"

section \<open>\<open>main\<close>\<close>

text \<open>
  \<open>args0\<close> is what \<open>parse_known_args\<close> returned and \<open>args\<close> what \<open>parse_args\<close>
  returned after \<open>customArguments\<close>; an algorithm module is known by its name, and
  \<open>kuka\<close> is the \<open>kuka_env\<close> module of the selected one.
\<close>

definition select_algo :: "string \<Rightarrow> globals \<Rightarrow> string option \<times> globals" where
  "select_algo a g =
     (if a = ''deepq'' then (Some ''deepq'', g)
      else if a = ''acer'' then (Some ''acer'', g\<lparr>LOG_INTERVAL := 1, SAVE_INTERVAL := 20\<rparr>)
      else if a = ''a2c'' then (Some ''a2c'', g)
      else if a = ''ppo2'' then (Some ''ppo2'', g\<lparr>LOG_INTERVAL := 10\<rparr>)
      else if a = ''random_agent'' then (Some ''random_agent'', g)
      else if a = ''random_search'' then (Some ''random_search'', g)
      else (None, g))"

definition agent_banner :: "string \<Rightarrow> string" where
  "agent_banner a = CHR 0x0A # ''Agent = '' @ a @ '' '' @ [CHR 0x0A]"

definition main_globals :: "args \<Rightarrow> globals \<Rightarrow> globals" where
  "main_globals args0 g =
     (let g1 = g\<lparr>ENV_NAME := env args0, ALGO := algo args0, VISDOM_PORT := port args0\<rparr>
      in if no_vis args0 then g1\<lparr>viz := VFalse\<rparr> else g1)"

definition main ::
  "world \<Rightarrow> args \<Rightarrow> args \<Rightarrow> kuka_env \<Rightarrow> globals
     \<Rightarrow> (error + unit) \<times> kuka_env \<times> event list \<times> globals" where
  "main w args0 args kuka g =
     (case select_algo (algo args0) (main_globals args0 g) of
        (None, g1) \<Rightarrow>
          (Inl (UnboundLocalError ''algo''), kuka, [Print_green (agent_banner (algo args0))], g1)
      | (Some selected, g1) \<Rightarrow>
          (let kuka1 = kuka\<lparr>ACTION_REPEAT := action_repeat args0\<rparr>;
               es1 = [Print_green (agent_banner (algo args0)), Custom_arguments selected, Parse_args]
           in case configureEnvAndLogFolder w args kuka1 g1 of
                (Inl e, a2, kuka2, es2, g2) \<Rightarrow> (Inl e, kuka2, es1 @ es2, g2)
              | (Inr a2, a3, kuka2, es2, g2) \<Rightarrow>
                  (let args_dict = filterJSONSerializableObjects w (vars a2)
                   in (Inr (), kuka2,
                       es1 @ es2 @
                       [Json_dump (LOG_DIR g2 @ ''args.json'') args_dict,
                        Print_yellow ''Arguments:'', Pprint args_dict,
                        Print_yellow ''Kuka Env Globals:'',
                        Pprint (filterJSONSerializableObjects w (getGlobals w kuka2))] @
                       saveEnvParams w kuka2 g2 @
                       [Set_global_seeds (seed a2), Algo_main selected a2],
                       g2))))"

section \<open>Runs\<close>

text \<open>
  The callback is invoked in the globals the module was loaded with, or in those
  \<open>main\<close> left when it called the algorithm, and then again in those the callback
  itself left.
\<close>

inductive started :: "globals \<Rightarrow> bool" where
  loaded: "started initial_globals"
| launched: "main w args0 args kuka initial_globals = (Inr (), kuka', es, g) \<Longrightarrow> started g"

inductive reachable :: "globals \<Rightarrow> bool" where
  start: "started g \<Longrightarrow> reachable g"
| invoked: "reachable g \<Longrightarrow> callback w locals g = (out, es, g') \<Longrightarrow> reachable g'"

text \<open>
  A run is a sequence of invocations, each with what the collaborators answer at that
  moment and with the caller's \<open>locals()\<close>. A process that an exception ends has run
  a prefix of the sequence.
\<close>

fun run :: "(world \<times> pydict) list \<Rightarrow> globals \<Rightarrow> event list \<times> globals" where
  "run [] g = ([], g)"
| "run ((w, locals) # rest) g =
     (case callback w locals g of (out, es, g') \<Rightarrow>
     (case run rest g' of (es', g'') \<Rightarrow> (es @ es', g'')))"

text \<open>Classifying the events of a trace.\<close>

fun is_read :: "event \<Rightarrow> bool" where
  "is_read (Compute_mean_reward d n) = True"
| "is_read e = False"

fun is_save :: "event \<Rightarrow> bool" where
  "is_save (Model_save m p) = True"
| "is_save e = False"

fun is_visdom_plot :: "event \<Rightarrow> bool" where
  "is_visdom_plot (Visdom_plot v w d e a b s t) = True"
| "is_visdom_plot e = False"

fun is_episode_plot :: "event \<Rightarrow> bool" where
  "is_episode_plot (Episode_plot v w d e a n t) = True"
| "is_episode_plot e = False"

fun is_connect :: "event \<Rightarrow> bool" where
  "is_connect (Visdom_connect p) = True"
| "is_connect e = False"

fun is_algo_main :: "event \<Rightarrow> bool" where
  "is_algo_main (Algo_main m a) = True"
| "is_algo_main e = False"

fun writes :: "string \<Rightarrow> event \<Rightarrow> bool" where
  "writes p (Json_dump q d) = (q = p)"
| "writes p (Model_save m q) = (q = p)"
| "writes p e = False"

section \<open>Concrete inputs\<close>

text \<open>
  A world in which the reward log has too few episodes and the dashboard returns the
  window it was given; one in which the evaluation is ok with mean reward \<open>r\<close>.
\<close>

fun is_object :: "pyval \<Rightarrow> bool" where
  "is_object (PyObj n) = True"
| "is_object (PyModel n) = True"
| "is_object v = False"

definition quiet_world :: world where
  "quiet_world =
     \<lparr> filterJSONSerializableObjects = filter (\<lambda>kv. \<not> is_object (snd kv)),
       computeMeanReward = (\<lambda>d n. (False, Num 0)),
       visdom_plot = (\<lambda>v win d e a b s t. win),
       episode_plot = (\<lambda>v win d e a n t. win),
       getGlobals = (\<lambda>k. [(''ACTION_REPEAT'', PyInt (ACTION_REPEAT k)),
                            (''USE_SRL'', PyBool (USE_SRL k))]),
       models = [(''log_folder'', ''srl_priors/logs/''), (''autoencoder'', ''autoencoder/model.pth'')],
       strftime_now = ''04-11-26_10h02_00'' \<rparr>"

definition rewarding_world :: "real \<Rightarrow> world" where
  "rewarding_world r = quiet_world\<lparr>computeMeanReward := (\<lambda>d n. (True, Num r))\<rparr>"

text \<open>The command line \<open>--algo alg\<close>, with \<open>--no-vis\<close> when \<open>nv\<close>, all else default.\<close>

definition default_args :: "string \<Rightarrow> bool \<Rightarrow> args" where
  "default_args alg nv =
     \<lparr> algo = alg, env = ''KukaButtonGymEnv-v0'', seed = 0, log_dir = ''/tmp/gym/'',
       num_timesteps = 1000000, srl_model = '''', num_stack = 4, action_repeat = 1,
       port = 8097, no_vis = nv, custom = [] \<rparr>"

definition kuka0 :: kuka_env where
  "kuka0 = \<lparr> USE_GROUND_TRUTH = False, USE_SRL = False, SRL_MODEL_PATH = None, ACTION_REPEAT = 1 \<rparr>"

text \<open>
  The globals \<open>n\<close> invocations after \<open>main\<close> launched \<open>alg\<close> from \<open>default_args alg False\<close>
  in \<open>quiet_world\<close>, no evaluation having been ok so far (\<open>n \<ge> 1\<close>).
\<close>

definition training :: "string \<Rightarrow> int \<Rightarrow> globals" where
  "training alg n =
     \<lparr> VISDOM_PORT = 8097,
       LOG_INTERVAL = (if alg = ''acer'' then 1 else if alg = ''ppo2'' then 10 else 100),
       LOG_DIR = ''/tmp/gym/raw_pixels/'' @ alg @ ''/04-11-26_10h02_00/'',
       ALGO = alg, ENV_NAME = ''KukaButtonGymEnv-v0'', PLOT_TITLE = ''Raw Pixels'',
       viz = VVisdom 8097, n_steps = n,
       SAVE_INTERVAL = (if alg = ''acer'' then 20 else 500),
       params_saved = True, best_mean_reward = Num (- 10000),
       win = None, win_smooth = None, win_episodes = None \<rparr>"

section \<open>Properties of the blocks\<close>

subsection \<open>Comparisons of Python numbers\<close>

lemma py_ge_refl: "py_ge a (Num c) \<Longrightarrow> py_ge a a"
  by (cases a) auto

lemma py_gt_ge: "py_gt a b \<Longrightarrow> py_ge a b"
  by (cases a; cases b) auto

lemma py_gt_ge_trans: "py_gt a b \<Longrightarrow> py_ge b c \<Longrightarrow> py_ge a c"
  by (cases a; cases b; cases c) auto

lemma py_ge_not_gt: "py_ge b c \<Longrightarrow> \<not> py_gt c b"
  by (cases b; cases c) auto

subsection \<open>The four blocks of the callback\<close>

text \<open>
  Each block changes one part of the globals: the connection \<open>viz\<close>, \<open>params_saved\<close>,
  \<open>best_mean_reward\<close>, the three windows.
\<close>

lemma connect_state:
  "snd (callback_connect g) = g\<lparr>viz := (if viz g = VNone then VVisdom (VISDOM_PORT g) else viz g)\<rparr>"
  by (simp add: callback_connect_def)

lemma connect_trace:
  "fst (callback_connect g) = (if viz g = VNone then [Visdom_connect (VISDOM_PORT g)] else [])"
  by (simp add: callback_connect_def)

lemma connect_frame [simp]:
  "VISDOM_PORT (snd (callback_connect g)) = VISDOM_PORT g"
  "LOG_INTERVAL (snd (callback_connect g)) = LOG_INTERVAL g"
  "LOG_DIR (snd (callback_connect g)) = LOG_DIR g"
  "ALGO (snd (callback_connect g)) = ALGO g"
  "ENV_NAME (snd (callback_connect g)) = ENV_NAME g"
  "PLOT_TITLE (snd (callback_connect g)) = PLOT_TITLE g"
  "n_steps (snd (callback_connect g)) = n_steps g"
  "SAVE_INTERVAL (snd (callback_connect g)) = SAVE_INTERVAL g"
  "params_saved (snd (callback_connect g)) = params_saved g"
  "best_mean_reward (snd (callback_connect g)) = best_mean_reward g"
  "win (snd (callback_connect g)) = win g"
  "win_smooth (snd (callback_connect g)) = win_smooth g"
  "win_episodes (snd (callback_connect g)) = win_episodes g"
  by (simp_all add: connect_state)

lemma connect_viz:
  "viz (snd (callback_connect g)) = (if viz g = VNone then VVisdom (VISDOM_PORT g) else viz g)"
  by (simp add: connect_state)

lemma params_state: "snd (callback_params w l g) = g\<lparr>params_saved := True\<rparr>"
  by (simp add: callback_params_def Let_def)

lemma params_trace:
  "fst (callback_params w l g) =
     (if params_saved g then []
      else [Json_dump (LOG_DIR g @ ''rl_locals.json'') (filterJSONSerializableObjects w l)])"
  by (simp add: callback_params_def Let_def)

lemma params_frame [simp]:
  "VISDOM_PORT (snd (callback_params w l g)) = VISDOM_PORT g"
  "LOG_INTERVAL (snd (callback_params w l g)) = LOG_INTERVAL g"
  "LOG_DIR (snd (callback_params w l g)) = LOG_DIR g"
  "ALGO (snd (callback_params w l g)) = ALGO g"
  "ENV_NAME (snd (callback_params w l g)) = ENV_NAME g"
  "PLOT_TITLE (snd (callback_params w l g)) = PLOT_TITLE g"
  "viz (snd (callback_params w l g)) = viz g"
  "n_steps (snd (callback_params w l g)) = n_steps g"
  "SAVE_INTERVAL (snd (callback_params w l g)) = SAVE_INTERVAL g"
  "params_saved (snd (callback_params w l g)) = True"
  "best_mean_reward (snd (callback_params w l g)) = best_mean_reward g"
  "win (snd (callback_params w l g)) = win g"
  "win_smooth (snd (callback_params w l g)) = win_smooth g"
  "win_episodes (snd (callback_params w l g)) = win_episodes g"
  by (simp_all add: params_state)

lemma save_model_best:
  "save_model l (g\<lparr>best_mean_reward := b\<rparr>) = save_model l g"
  by (simp add: save_model_def cong: option.case_cong)

lemma save_model_frame:
  "ALGO g' = ALGO g \<Longrightarrow> LOG_DIR g' = LOG_DIR g \<Longrightarrow> save_model l g' = save_model l g"
  by (simp add: save_model_def cong: option.case_cong)

lemma save_model_result:
  "fst (save_model l g) =
     (if ALGO g \<in> {''deepq'', ''acer'', ''a2c'', ''ppo2''} then
        (case map_of l (if ALGO g = ''deepq'' then ''act'' else ''model'') of
           None \<Rightarrow> Some (KeyError (if ALGO g = ''deepq'' then ''act'' else ''model''))
         | Some m \<Rightarrow> if has_save m then None else Some (AttributeError ''save''))
      else None)"
  by (simp add: save_model_def call_save_def split: option.splits)

lemma save_model_events:
  "snd (save_model l g) =
     (if ALGO g \<in> {''deepq'', ''acer'', ''a2c'', ''ppo2''} then
        (case map_of l (if ALGO g = ''deepq'' then ''act'' else ''model'') of
           None \<Rightarrow> []
         | Some m \<Rightarrow> if has_save m then [Model_save m (LOG_DIR g @ ALGO g @ ''_model.pkl'')] else [])
      else [])"
  by (simp add: save_model_def call_save_def split: option.splits)

lemma save_model_some:
  "snd (save_model l g) \<noteq> [] \<longleftrightarrow>
     ALGO g \<in> {''deepq'', ''acer'', ''a2c'', ''ppo2''} \<and>
     (\<exists>m. map_of l (if ALGO g = ''deepq'' then ''act'' else ''model'') = Some m \<and> has_save m)"
  by (simp add: save_model_events split: option.splits)

lemma mean_reward_frame:
  "LOG_DIR g' = LOG_DIR g \<Longrightarrow> mean_reward w g' = mean_reward w g"
  by (simp add: mean_reward_def)

lemma mean_reward_update [simp]:
  "mean_reward w (g\<lparr>viz := v\<rparr>) = mean_reward w g"
  "mean_reward w (g\<lparr>params_saved := b\<rparr>) = mean_reward w g"
  "mean_reward w (g\<lparr>n_steps := n\<rparr>) = mean_reward w g"
  by (simp_all add: mean_reward_def)

lemma checkpoint_state:
  "snd (snd (callback_checkpoint w l g)) =
     g\<lparr>best_mean_reward :=
         (if SAVE_INTERVAL g \<noteq> 0 \<and> (n_steps g + 1) mod SAVE_INTERVAL g = 0 \<and>
             py_gt (mean_reward w g) (best_mean_reward g)
          then mean_reward w g else best_mean_reward g)\<rparr>"
  by (simp add: callback_checkpoint_def Let_def split: prod.splits)

lemma checkpoint_result:
  "fst (callback_checkpoint w l g) =
     (if SAVE_INTERVAL g = 0 then Some ZeroDivisionError
      else if (n_steps g + 1) mod SAVE_INTERVAL g = 0 \<and>
              py_gt (mean_reward w g) (best_mean_reward g)
      then fst (save_model l g) else None)"
  by (simp add: callback_checkpoint_def Let_def save_model_best split: prod.splits)

lemma checkpoint_trace:
  "fst (snd (callback_checkpoint w l g)) =
     (if SAVE_INTERVAL g \<noteq> 0 \<and> (n_steps g + 1) mod SAVE_INTERVAL g = 0 then
        Compute_mean_reward (LOG_DIR g) N_EPISODES_EVAL #
        (if fst (computeMeanReward w (LOG_DIR g) N_EPISODES_EVAL)
         then [Print_rewards (best_mean_reward g) (snd (computeMeanReward w (LOG_DIR g) N_EPISODES_EVAL))]
         else []) @
        (if py_gt (mean_reward w g) (best_mean_reward g) then snd (save_model l g) else [])
      else [])"
  by (simp add: callback_checkpoint_def Let_def save_model_best split: prod.splits)

lemma checkpoint_frame [simp]:
  "VISDOM_PORT (snd (snd (callback_checkpoint w l g))) = VISDOM_PORT g"
  "LOG_INTERVAL (snd (snd (callback_checkpoint w l g))) = LOG_INTERVAL g"
  "LOG_DIR (snd (snd (callback_checkpoint w l g))) = LOG_DIR g"
  "ALGO (snd (snd (callback_checkpoint w l g))) = ALGO g"
  "ENV_NAME (snd (snd (callback_checkpoint w l g))) = ENV_NAME g"
  "PLOT_TITLE (snd (snd (callback_checkpoint w l g))) = PLOT_TITLE g"
  "viz (snd (snd (callback_checkpoint w l g))) = viz g"
  "n_steps (snd (snd (callback_checkpoint w l g))) = n_steps g"
  "SAVE_INTERVAL (snd (snd (callback_checkpoint w l g))) = SAVE_INTERVAL g"
  "params_saved (snd (snd (callback_checkpoint w l g))) = params_saved g"
  "win (snd (snd (callback_checkpoint w l g))) = win g"
  "win_smooth (snd (snd (callback_checkpoint w l g))) = win_smooth g"
  "win_episodes (snd (snd (callback_checkpoint w l g))) = win_episodes g"
  by (simp_all add: checkpoint_state)

lemma checkpoint_best:
  "best_mean_reward (snd (snd (callback_checkpoint w l g))) =
     (if SAVE_INTERVAL g \<noteq> 0 \<and> (n_steps g + 1) mod SAVE_INTERVAL g = 0 \<and>
         py_gt (mean_reward w g) (best_mean_reward g)
      then mean_reward w g else best_mean_reward g)"
  by (simp add: checkpoint_state)

lemma plot_state:
  "snd (snd (callback_plot w g)) =
     (let due = truthy (viz g) \<and> LOG_INTERVAL g \<noteq> 0 \<and> (n_steps g + 1) mod LOG_INTERVAL g = 0
      in g\<lparr>win := (if due then visdom_plot w (viz g) (win g) (LOG_DIR g) (ENV_NAME g) (ALGO g)
                              (Some 1) (Some 0) (PLOT_TITLE g) else win g),
          win_smooth := (if due then visdom_plot w (viz g) (win_smooth g) (LOG_DIR g) (ENV_NAME g)
                              (ALGO g) None None (PLOT_TITLE g @ '' smoothed'') else win_smooth g),
          win_episodes := (if due then episode_plot w (viz g) (win_episodes g) (LOG_DIR g)
                              (ENV_NAME g) (ALGO g) EPISODE_WINDOW (PLOT_TITLE g @ '' [Episodes]'')
                           else win_episodes g)\<rparr>)"
  by (simp add: callback_plot_def Let_def)

lemma plot_result:
  "fst (callback_plot w g) =
     (if truthy (viz g) \<and> LOG_INTERVAL g = 0 then Some ZeroDivisionError else None)"
  by (simp add: callback_plot_def Let_def)

lemma plot_trace:
  "fst (snd (callback_plot w g)) =
     (if truthy (viz g) \<and> LOG_INTERVAL g \<noteq> 0 \<and> (n_steps g + 1) mod LOG_INTERVAL g = 0 then
             [Visdom_plot (viz g) (win g) (LOG_DIR g) (ENV_NAME g) (ALGO g) (Some 1) (Some 0)
                (PLOT_TITLE g),
              Visdom_plot (viz g) (win_smooth g) (LOG_DIR g) (ENV_NAME g) (ALGO g) None None
                (PLOT_TITLE g @ '' smoothed''),
              Episode_plot (viz g) (win_episodes g) (LOG_DIR g) (ENV_NAME g) (ALGO g)
                EPISODE_WINDOW (PLOT_TITLE g @ '' [Episodes]'')]
      else [])"
  by (simp add: callback_plot_def Let_def)

lemma plot_frame [simp]:
  "VISDOM_PORT (snd (snd (callback_plot w g))) = VISDOM_PORT g"
  "LOG_INTERVAL (snd (snd (callback_plot w g))) = LOG_INTERVAL g"
  "LOG_DIR (snd (snd (callback_plot w g))) = LOG_DIR g"
  "ALGO (snd (snd (callback_plot w g))) = ALGO g"
  "ENV_NAME (snd (snd (callback_plot w g))) = ENV_NAME g"
  "PLOT_TITLE (snd (snd (callback_plot w g))) = PLOT_TITLE g"
  "viz (snd (snd (callback_plot w g))) = viz g"
  "n_steps (snd (snd (callback_plot w g))) = n_steps g"
  "SAVE_INTERVAL (snd (snd (callback_plot w g))) = SAVE_INTERVAL g"
  "params_saved (snd (snd (callback_plot w g))) = params_saved g"
  "best_mean_reward (snd (snd (callback_plot w g))) = best_mean_reward g"
  by (simp_all add: plot_state Let_def)

lemma prepared_frame [simp]:
  "save_model l (snd (callback_params w l' (snd (callback_connect g)))) = save_model l g"
  "mean_reward w (snd (callback_params w l' (snd (callback_connect g)))) = mean_reward w g"
  by (rule save_model_frame; simp) (rule mean_reward_frame; simp)

subsection \<open>The callback as the sequence of its blocks\<close>

text \<open>
  An invocation raises in the checkpoint block, raises in the plot block, or returns.
\<close>

lemma callback_triple:
  "callback w l g = (fst (callback w l g), fst (snd (callback w l g)), snd (snd (callback w l g)))"
  by simp

lemma callback_cases [consumes 1, case_names checkpoint_raises plot_raises returns]:
  assumes "callback w l g = (out, es, g')"
  obtains
    e g2 where
      "g2 = snd (callback_params w l (snd (callback_connect g)))"
      "fst (callback_checkpoint w l g2) = Some e"
      "out = Inl e"
      "es = fst (callback_connect g) @ fst (callback_params w l (snd (callback_connect g))) @
            fst (snd (callback_checkpoint w l g2))"
      "g' = snd (snd (callback_checkpoint w l g2))"
  | e g2 g3 where
      "g2 = snd (callback_params w l (snd (callback_connect g)))"
      "g3 = snd (snd (callback_checkpoint w l g2))"
      "fst (callback_checkpoint w l g2) = None"
      "fst (callback_plot w g3) = Some e"
      "out = Inl e"
      "es = fst (callback_connect g) @ fst (callback_params w l (snd (callback_connect g))) @
            fst (snd (callback_checkpoint w l g2)) @ fst (snd (callback_plot w g3))"
      "g' = snd (snd (callback_plot w g3))"
  | g2 g3 g4 where
      "g2 = snd (callback_params w l (snd (callback_connect g)))"
      "g3 = snd (snd (callback_checkpoint w l g2))"
      "g4 = snd (snd (callback_plot w g3))"
      "fst (callback_checkpoint w l g2) = None"
      "fst (callback_plot w g3) = None"
      "out = Inr False"
      "es = fst (callback_connect g) @ fst (callback_params w l (snd (callback_connect g))) @
            fst (snd (callback_checkpoint w l g2)) @ fst (snd (callback_plot w g3))"
      "g' = g4\<lparr>n_steps := n_steps g4 + 1\<rparr>"
  using assms
  by (simp add: callback_def split_beta split: option.splits)

lemma callback_frame:
  assumes "callback w l g = (out, es, g')"
  shows "SAVE_INTERVAL g' = SAVE_INTERVAL g" and "LOG_INTERVAL g' = LOG_INTERVAL g"
    and "LOG_DIR g' = LOG_DIR g" and "ALGO g' = ALGO g" and "ENV_NAME g' = ENV_NAME g"
    and "PLOT_TITLE g' = PLOT_TITLE g" and "VISDOM_PORT g' = VISDOM_PORT g"
    and "params_saved g'"
    and "viz g' = (if viz g = VNone then VVisdom (VISDOM_PORT g) else viz g)"
  using assms by (cases rule: callback_cases; simp add: connect_viz)+

lemma callback_best:
  assumes "callback w l g = (out, es, g')"
  shows "best_mean_reward g' =
     (if SAVE_INTERVAL g \<noteq> 0 \<and> (n_steps g + 1) mod SAVE_INTERVAL g = 0 \<and>
         py_gt (mean_reward w g) (best_mean_reward g)
      then mean_reward w g else best_mean_reward g)"
  using assms by (cases rule: callback_cases; simp add: checkpoint_best)

lemma callback_n_steps:
  assumes "callback w l g = (out, es, g')"
  shows "n_steps g' = (if out = Inr False then n_steps g + 1 else n_steps g)"
  using assms by (cases rule: callback_cases; simp)

lemma callback_out:
  assumes "callback w l g = (out, es, g')"
  shows "out =
     (if SAVE_INTERVAL g = 0 then Inl ZeroDivisionError
      else if (n_steps g + 1) mod SAVE_INTERVAL g = 0 \<and>
              py_gt (mean_reward w g) (best_mean_reward g) \<and> fst (save_model l g) \<noteq> None
      then Inl (the (fst (save_model l g)))
      else if viz g \<noteq> VFalse \<and> LOG_INTERVAL g = 0 then Inl ZeroDivisionError
      else Inr False)"
  using assms
  by (cases rule: callback_cases; cases "viz g";
      auto simp add: checkpoint_result plot_result connect_viz split: if_splits)

lemma callback_quiet:
  assumes "SAVE_INTERVAL g \<noteq> 0" and "LOG_INTERVAL g \<noteq> 0"
    and "\<not> py_gt (mean_reward w g) (best_mean_reward g)"
    and "visdom_plot w = (\<lambda>v win d e a b s t. win)"
    and "episode_plot w = (\<lambda>v win d e a n t. win)"
  shows "snd (snd (callback w l g)) =
     g\<lparr>viz := (if viz g = VNone then VVisdom (VISDOM_PORT g) else viz g),
       params_saved := True, n_steps := n_steps g + 1\<rparr>"
proof -
  obtain out es g' where c: "callback w l g = (out, es, g')"
    by (cases "callback w l g") auto
  have "out = Inr False"
    using callback_out [OF c] assms by simp
  with c have "g' = g\<lparr>viz := (if viz g = VNone then VVisdom (VISDOM_PORT g) else viz g),
       params_saved := True, n_steps := n_steps g + 1\<rparr>"
    by (cases rule: callback_cases)
       (simp_all add: connect_state params_state checkpoint_state plot_state Let_def assms)
  with c show ?thesis by simp
qed

subsection \<open>Traces\<close>

lemma save_model_trace:
  "snd (save_model l g) = [] \<or> (\<exists>m suffix. snd (save_model l g) = [Model_save m (LOG_DIR g @ suffix)] \<and>
      suffix \<in> {''deepq_model.pkl'', ''acer_model.pkl'', ''a2c_model.pkl'', ''ppo2_model.pkl''})"
  by (simp add: save_model_def call_save_def split: option.splits)

lemma save_model_filters [simp]:
  "filter is_read (snd (save_model l g)) = []"
  "filter is_save (snd (save_model l g)) = snd (save_model l g)"
  "filter is_visdom_plot (snd (save_model l g)) = []"
  "filter is_episode_plot (snd (save_model l g)) = []"
  "filter is_connect (snd (save_model l g)) = []"
  "LOG_DIR g = d \<Longrightarrow> filter (writes (d @ ''rl_locals.json'')) (snd (save_model l g)) = []"
  using save_model_trace [of l g] by auto

lemma connect_filters [simp]:
  "filter is_read (fst (callback_connect g)) = []"
  "filter is_save (fst (callback_connect g)) = []"
  "filter is_visdom_plot (fst (callback_connect g)) = []"
  "filter is_episode_plot (fst (callback_connect g)) = []"
  "filter is_connect (fst (callback_connect g)) = fst (callback_connect g)"
  "filter (writes p) (fst (callback_connect g)) = []"
  by (simp_all add: connect_trace)

lemma params_filters [simp]:
  "filter is_read (fst (callback_params w l g)) = []"
  "filter is_save (fst (callback_params w l g)) = []"
  "filter is_visdom_plot (fst (callback_params w l g)) = []"
  "filter is_episode_plot (fst (callback_params w l g)) = []"
  "filter is_connect (fst (callback_params w l g)) = []"
  "LOG_DIR g = d \<Longrightarrow>
     filter (writes (d @ ''rl_locals.json'')) (fst (callback_params w l g)) =
     fst (callback_params w l g)"
  by (simp_all add: params_trace)

lemma checkpoint_filters [simp]:
  "filter is_read (fst (snd (callback_checkpoint w l g))) =
     (if SAVE_INTERVAL g \<noteq> 0 \<and> (n_steps g + 1) mod SAVE_INTERVAL g = 0
      then [Compute_mean_reward (LOG_DIR g) N_EPISODES_EVAL] else [])"
  "filter is_save (fst (snd (callback_checkpoint w l g))) =
     (if SAVE_INTERVAL g \<noteq> 0 \<and> (n_steps g + 1) mod SAVE_INTERVAL g = 0 \<and>
         py_gt (mean_reward w g) (best_mean_reward g)
      then snd (save_model l g) else [])"
  "filter is_visdom_plot (fst (snd (callback_checkpoint w l g))) = []"
  "filter is_episode_plot (fst (snd (callback_checkpoint w l g))) = []"
  "filter is_connect (fst (snd (callback_checkpoint w l g))) = []"
  "LOG_DIR g = d \<Longrightarrow>
     filter (writes (d @ ''rl_locals.json'')) (fst (snd (callback_checkpoint w l g))) = []"
  by (simp_all add: checkpoint_trace)

lemma plot_filters [simp]:
  "filter is_read (fst (snd (callback_plot w g))) = []"
  "filter is_save (fst (snd (callback_plot w g))) = []"
  "length (filter is_visdom_plot (fst (snd (callback_plot w g)))) =
     (if truthy (viz g) \<and> LOG_INTERVAL g \<noteq> 0 \<and> (n_steps g + 1) mod LOG_INTERVAL g = 0
      then 2 else 0)"
  "length (filter is_episode_plot (fst (snd (callback_plot w g)))) =
     (if truthy (viz g) \<and> LOG_INTERVAL g \<noteq> 0 \<and> (n_steps g + 1) mod LOG_INTERVAL g = 0
      then 1 else 0)"
  "filter is_connect (fst (snd (callback_plot w g))) = []"
  "filter (writes p) (fst (snd (callback_plot w g))) = []"
  by (simp_all add: plot_trace)

lemma callback_reads:
  assumes "callback w l g = (out, es, g')"
  shows "filter is_read es =
     (if SAVE_INTERVAL g \<noteq> 0 \<and> (n_steps g + 1) mod SAVE_INTERVAL g = 0
      then [Compute_mean_reward (LOG_DIR g) N_EPISODES_EVAL] else [])"
  using assms by (cases rule: callback_cases; simp)

lemma callback_saves:
  assumes "callback w l g = (out, es, g')"
  shows "filter is_save es =
     (if SAVE_INTERVAL g \<noteq> 0 \<and> (n_steps g + 1) mod SAVE_INTERVAL g = 0 \<and>
         py_gt (mean_reward w g) (best_mean_reward g)
      then snd (save_model l g) else [])"
  using assms by (cases rule: callback_cases; simp)

lemma callback_connects:
  assumes "callback w l g = (out, es, g')"
  shows "filter is_connect es =
     (if viz g = VNone then [Visdom_connect (VISDOM_PORT g)] else [])"
  using assms by (cases rule: callback_cases; simp add: connect_trace)

lemma callback_writes:
  assumes "callback w l g = (out, es, g')"
  shows "filter (writes (LOG_DIR g @ ''rl_locals.json'')) es =
     (if params_saved g then []
      else [Json_dump (LOG_DIR g @ ''rl_locals.json'') (filterJSONSerializableObjects w l)])"
  using assms by (cases rule: callback_cases; simp add: params_trace)

lemma callback_plots:
  assumes "callback w l g = (out, es, g')"
  shows "length (filter is_visdom_plot es) =
           (if out = Inr False \<and> viz g \<noteq> VFalse \<and> (n_steps g + 1) mod LOG_INTERVAL g = 0
            then 2 else 0)"
    and "length (filter is_episode_plot es) =
           (if out = Inr False \<and> viz g \<noteq> VFalse \<and> (n_steps g + 1) mod LOG_INTERVAL g = 0
            then 1 else 0)"
  using assms
  by (cases rule: callback_cases; cases "viz g";
      simp add: connect_viz plot_result split: if_splits)+

subsection \<open>Configuration and the entry point\<close>

lemma srl_result:
  "fst (configure_srl w a k g) =
     (if srl_model a = '''' \<or> srl_model a = ''ground_truth'' then None
      else case map_of (models w) (srl_model a) of
             None \<Rightarrow> Some (ValueError (''Unsupported value for srl-model: '' @ srl_model a))
           | Some p \<Rightarrow>
               (case map_of (models w) ''log_folder'' of
                  None \<Rightarrow> Some (KeyError ''log_folder'')
                | Some folder \<Rightarrow> None))"
  by (simp add: configure_srl_def Let_def split: option.splits)

lemma srl_args:
  "fst (snd (configure_srl w a k g)) =
     a\<lparr>log_dir := log_dir a @ (if srl_model a = '''' then ''raw_pixels/'' else srl_model a @ ''/'')\<rparr>"
  by (simp add: configure_srl_def Let_def split: option.splits)

lemma srl_globals:
  "snd (snd (snd (configure_srl w a k g))) =
     g\<lparr>PLOT_TITLE := (if srl_model a = '''' then PLOT_TITLE g
                       else if srl_model a = ''ground_truth'' then ''Ground Truth''
                       else srl_model a)\<rparr>"
  by (simp add: configure_srl_def Let_def split: option.splits)

lemma srl_kuka:
  "fst (snd (snd (configure_srl w a k g))) =
     (if srl_model a = '''' then k
      else if srl_model a = ''ground_truth'' then k\<lparr>USE_GROUND_TRUTH := True\<rparr>
      else case map_of (models w) (srl_model a) of
             None \<Rightarrow> k
           | Some p \<Rightarrow>
               (case map_of (models w) ''log_folder'' of
                  None \<Rightarrow> k\<lparr>USE_SRL := True\<rparr>
                | Some folder \<Rightarrow> k\<lparr>USE_SRL := True, SRL_MODEL_PATH := Some (folder @ p)\<rparr>))"
  by (simp add: configure_srl_def Let_def split: option.splits)

lemma configure_supported:
  assumes "srl_model args = '''' \<or> srl_model args = ''ground_truth'' \<or>
           map_of (models w) (srl_model args) \<noteq> None \<and> map_of (models w) ''log_folder'' \<noteq> None"
  shows "fst (configure_srl w args kuka g) = None"
  using assms by (auto simp add: srl_result)

lemma cfg_result:
  "fst (configureEnvAndLogFolder w a k g) =
     (case fst (configure_srl w a k g) of
        Some e \<Rightarrow> Inl e
      | None \<Rightarrow> Inr (fst (snd (configureEnvAndLogFolder w a k g))))"
  by (simp add: configureEnvAndLogFolder_def split_beta Let_def split: option.splits)

lemma cfg_kuka:
  "fst (snd (snd (configureEnvAndLogFolder w a k g))) = fst (snd (snd (configure_srl w a k g)))"
  by (simp add: configureEnvAndLogFolder_def split_beta Let_def split: option.splits)

lemma cfg_trace:
  "fst (snd (snd (snd (configureEnvAndLogFolder w a k g)))) =
     (if fst (configure_srl w a k g) = None
      then [Make_dirs (log_dir (fst (snd (configureEnvAndLogFolder w a k g))))] else [])"
  by (simp add: configureEnvAndLogFolder_def split_beta Let_def split: option.splits)

lemma cfg_args:
  "fst (snd (configureEnvAndLogFolder w a k g)) =
     (if fst (configure_srl w a k g) = None
      then (fst (snd (configure_srl w a k g)))
             \<lparr>log_dir := log_dir (fst (snd (configure_srl w a k g))) @ ALGO g @ ''/'' @
                          strftime_now w @ ''/''\<rparr>
      else fst (snd (configure_srl w a k g)))"
  by (simp add: configureEnvAndLogFolder_def split_beta Let_def srl_globals split: option.splits)

lemma cfg_globals:
  "snd (snd (snd (snd (configureEnvAndLogFolder w a k g)))) =
     (if fst (configure_srl w a k g) = None
      then (snd (snd (snd (configure_srl w a k g))))
             \<lparr>LOG_DIR := log_dir (fst (snd (configureEnvAndLogFolder w a k g)))\<rparr>
      else snd (snd (snd (configure_srl w a k g))))"
  by (simp add: configureEnvAndLogFolder_def split_beta Let_def split: option.splits)

lemma cfg_frame [simp]:
  "VISDOM_PORT (snd (snd (snd (snd (configureEnvAndLogFolder w a k g))))) = VISDOM_PORT g"
  "LOG_INTERVAL (snd (snd (snd (snd (configureEnvAndLogFolder w a k g))))) = LOG_INTERVAL g"
  "ALGO (snd (snd (snd (snd (configureEnvAndLogFolder w a k g))))) = ALGO g"
  "ENV_NAME (snd (snd (snd (snd (configureEnvAndLogFolder w a k g))))) = ENV_NAME g"
  "viz (snd (snd (snd (snd (configureEnvAndLogFolder w a k g))))) = viz g"
  "n_steps (snd (snd (snd (snd (configureEnvAndLogFolder w a k g))))) = n_steps g"
  "SAVE_INTERVAL (snd (snd (snd (snd (configureEnvAndLogFolder w a k g))))) = SAVE_INTERVAL g"
  "params_saved (snd (snd (snd (snd (configureEnvAndLogFolder w a k g))))) = params_saved g"
  "best_mean_reward (snd (snd (snd (snd (configureEnvAndLogFolder w a k g))))) = best_mean_reward g"
  by (simp_all add: cfg_globals srl_globals)

lemma select_algo_state:
  "snd (select_algo a g) =
     g\<lparr>LOG_INTERVAL := (if a = ''acer'' then 1 else if a = ''ppo2'' then 10 else LOG_INTERVAL g),
       SAVE_INTERVAL := (if a = ''acer'' then 20 else SAVE_INTERVAL g)\<rparr>"
  by (simp add: select_algo_def)

lemma select_algo_frame [simp]:
  "VISDOM_PORT (snd (select_algo a g)) = VISDOM_PORT g"
  "LOG_DIR (snd (select_algo a g)) = LOG_DIR g"
  "ALGO (snd (select_algo a g)) = ALGO g"
  "ENV_NAME (snd (select_algo a g)) = ENV_NAME g"
  "PLOT_TITLE (snd (select_algo a g)) = PLOT_TITLE g"
  "viz (snd (select_algo a g)) = viz g"
  "n_steps (snd (select_algo a g)) = n_steps g"
  "params_saved (snd (select_algo a g)) = params_saved g"
  "best_mean_reward (snd (select_algo a g)) = best_mean_reward g"
  by (simp_all add: select_algo_state)

lemma select_algo_intervals:
  "LOG_INTERVAL (snd (select_algo a g)) =
     (if a = ''acer'' then 1 else if a = ''ppo2'' then 10 else LOG_INTERVAL g)"
  "SAVE_INTERVAL (snd (select_algo a g)) = (if a = ''acer'' then 20 else SAVE_INTERVAL g)"
  by (simp_all add: select_algo_state)

lemma select_algo_result:
  "fst (select_algo a g) =
     (if a \<in> {''deepq'', ''acer'', ''a2c'', ''ppo2'', ''random_agent'', ''random_search''}
      then Some a else None)"
  by (simp add: select_algo_def)

lemma main_globals_state:
  "main_globals a0 g =
     g\<lparr>ENV_NAME := env a0, ALGO := algo a0, VISDOM_PORT := port a0,
       viz := (if no_vis a0 then VFalse else viz g)\<rparr>"
  by (simp add: main_globals_def Let_def)

lemma main_result:
  "fst (main w a0 a k g) =
     (case fst (select_algo (algo a0) (main_globals a0 g)) of
        None \<Rightarrow> Inl (UnboundLocalError ''algo'')
      | Some m \<Rightarrow>
          (case fst (configureEnvAndLogFolder w a (k\<lparr>ACTION_REPEAT := action_repeat a0\<rparr>)
                       (snd (select_algo (algo a0) (main_globals a0 g)))) of
             Inl e \<Rightarrow> Inl e
           | Inr a2 \<Rightarrow> Inr ()))"
  by (simp add: main_def split_beta Let_def split: option.splits sum.splits)

lemma main_state:
  "snd (snd (snd (main w a0 a k g))) =
     (case fst (select_algo (algo a0) (main_globals a0 g)) of
        None \<Rightarrow> snd (select_algo (algo a0) (main_globals a0 g))
      | Some m \<Rightarrow>
          snd (snd (snd (snd (configureEnvAndLogFolder w a (k\<lparr>ACTION_REPEAT := action_repeat a0\<rparr>)
                       (snd (select_algo (algo a0) (main_globals a0 g))))))))"
  by (simp add: main_def split_beta Let_def split: option.splits sum.splits)

lemma main_kuka:
  "fst (snd (main w a0 a k g)) =
     (case fst (select_algo (algo a0) (main_globals a0 g)) of
        None \<Rightarrow> k
      | Some m \<Rightarrow>
          fst (snd (snd (configureEnvAndLogFolder w a (k\<lparr>ACTION_REPEAT := action_repeat a0\<rparr>)
                       (snd (select_algo (algo a0) (main_globals a0 g)))))))"
  by (simp add: main_def split_beta Let_def split: option.splits sum.splits)

lemma main_trace:
  "fst (snd (snd (main w a0 a k g))) =
     (let c = configureEnvAndLogFolder w a (k\<lparr>ACTION_REPEAT := action_repeat a0\<rparr>)
                (snd (select_algo (algo a0) (main_globals a0 g)));
          kuka2 = fst (snd (snd c)); es2 = fst (snd (snd (snd c))); g2 = snd (snd (snd (snd c)))
      in case fst (select_algo (algo a0) (main_globals a0 g)) of
        None \<Rightarrow> [Print_green (agent_banner (algo a0))]
      | Some m \<Rightarrow>
          [Print_green (agent_banner (algo a0)), Custom_arguments m, Parse_args] @ es2 @
          (case fst c of
             Inl e \<Rightarrow> []
           | Inr a2 \<Rightarrow>
               [Json_dump (LOG_DIR g2 @ ''args.json'') (filterJSONSerializableObjects w (vars a2)),
                Print_yellow ''Arguments:'', Pprint (filterJSONSerializableObjects w (vars a2)),
                Print_yellow ''Kuka Env Globals:'',
                Pprint (filterJSONSerializableObjects w (getGlobals w kuka2)),
                Json_dump (LOG_DIR g2 @ ''kuka_env_globals.json'')
                  (filterJSONSerializableObjects w (getGlobals w kuka2)),
                Set_global_seeds (seed a2), Algo_main m a2]))"
  by (simp add: main_def split_beta Let_def saveEnvParams_def split: option.splits sum.splits)

lemma main_quadruple:
  "fst (main w a0 a k g) = Inr () \<Longrightarrow>
     main w a0 a k g =
       (Inr (), fst (snd (main w a0 a k g)), fst (snd (snd (main w a0 a k g))),
        snd (snd (snd (main w a0 a k g))))"
  by (simp add: prod_eq_iff)

lemma main_success:
  assumes "main w args0 args kuka g = (Inr (), kuka', es, g')"
  shows "algo args0 \<in> {''deepq'', ''acer'', ''a2c'', ''ppo2'', ''random_agent'', ''random_search''}"
    and "fst (configure_srl w args (kuka\<lparr>ACTION_REPEAT := action_repeat args0\<rparr>)
           (snd (select_algo (algo args0) (main_globals args0 g)))) = None"
    and "LOG_DIR g' = log_dir args @
           (if srl_model args = '''' then ''raw_pixels/'' else srl_model args @ ''/'') @
           algo args0 @ ''/'' @ strftime_now w @ ''/''"
    and "kuka' = fst (snd (snd (configure_srl w args (kuka\<lparr>ACTION_REPEAT := action_repeat args0\<rparr>)
           (snd (select_algo (algo args0) (main_globals args0 g))))))"
    and "es =
      [Print_green (agent_banner (algo args0)), Custom_arguments (algo args0), Parse_args,
       Make_dirs (LOG_DIR g'),
       Json_dump (LOG_DIR g' @ ''args.json'')
         (filterJSONSerializableObjects w (vars (args\<lparr>log_dir := LOG_DIR g'\<rparr>))),
       Print_yellow ''Arguments:'',
       Pprint (filterJSONSerializableObjects w (vars (args\<lparr>log_dir := LOG_DIR g'\<rparr>))),
       Print_yellow ''Kuka Env Globals:'',
       Pprint (filterJSONSerializableObjects w (getGlobals w kuka')),
       Json_dump (LOG_DIR g' @ ''kuka_env_globals.json'')
         (filterJSONSerializableObjects w (getGlobals w kuka')),
       Set_global_seeds (seed args), Algo_main (algo args0) (args\<lparr>log_dir := LOG_DIR g'\<rparr>)]"
proof -
  let ?g1 = "snd (select_algo (algo args0) (main_globals args0 g))"
  let ?k1 = "kuka\<lparr>ACTION_REPEAT := action_repeat args0\<rparr>"
  let ?c = "configureEnvAndLogFolder w args ?k1 ?g1"
  from assms have r: "fst (main w args0 args kuka g) = Inr ()"
    and s: "g' = snd (snd (snd (main w args0 args kuka g)))"
    and k: "kuka' = fst (snd (main w args0 args kuka g))"
    and t: "es = fst (snd (snd (main w args0 args kuka g)))"
    by simp_all
  from r have sel: "fst (select_algo (algo args0) (main_globals args0 g)) = Some (algo args0)"
    by (simp add: main_result select_algo_result split: option.splits if_splits)
  then show "algo args0 \<in> {''deepq'', ''acer'', ''a2c'', ''ppo2'', ''random_agent'', ''random_search''}"
    by (simp add: select_algo_result split: if_splits)
  from r sel have cr: "\<exists>a2. fst ?c = Inr a2"
    by (simp add: main_result split: sum.splits)
  then show srl: "fst (configure_srl w args ?k1 ?g1) = None"
    by (simp add: cfg_result split: option.splits)
  have algo: "ALGO (main_globals args0 g) = algo args0"
    by (simp add: main_globals_state)
  have a2: "fst (snd ?c) = args\<lparr>log_dir := log_dir args @
           (if srl_model args = '''' then ''raw_pixels/'' else srl_model args @ ''/'') @
           algo args0 @ ''/'' @ strftime_now w @ ''/''\<rparr>"
    using srl by (simp add: cfg_args srl_args algo)
  have g': "g' = snd (snd (snd (snd ?c)))"
    using s sel by (simp add: main_state)
  show ld: "LOG_DIR g' = log_dir args @
           (if srl_model args = '''' then ''raw_pixels/'' else srl_model args @ ''/'') @
           algo args0 @ ''/'' @ strftime_now w @ ''/''"
    unfolding g' by (simp add: cfg_globals srl a2)
  show k': "kuka' = fst (snd (snd (configure_srl w args ?k1 ?g1)))"
    using k sel by (simp add: main_kuka cfg_kuka)
  have a2': "fst (snd ?c) = args\<lparr>log_dir := LOG_DIR g'\<rparr>"
    unfolding a2 ld ..
  have fc: "fst ?c = Inr (args\<lparr>log_dir := LOG_DIR g'\<rparr>)"
    using srl a2' by (simp add: cfg_result)
  have tr: "fst (snd (snd (snd ?c))) = [Make_dirs (LOG_DIR g')]"
    using srl a2' by (simp add: cfg_trace)
  have kc: "fst (snd (snd ?c)) = kuka'"
    using k' by (simp add: cfg_kuka)
  show "es =
      [Print_green (agent_banner (algo args0)), Custom_arguments (algo args0), Parse_args,
       Make_dirs (LOG_DIR g'),
       Json_dump (LOG_DIR g' @ ''args.json'')
         (filterJSONSerializableObjects w (vars (args\<lparr>log_dir := LOG_DIR g'\<rparr>))),
       Print_yellow ''Arguments:'',
       Pprint (filterJSONSerializableObjects w (vars (args\<lparr>log_dir := LOG_DIR g'\<rparr>))),
       Print_yellow ''Kuka Env Globals:'',
       Pprint (filterJSONSerializableObjects w (getGlobals w kuka')),
       Json_dump (LOG_DIR g' @ ''kuka_env_globals.json'')
         (filterJSONSerializableObjects w (getGlobals w kuka')),
       Set_global_seeds (seed args), Algo_main (algo args0) (args\<lparr>log_dir := LOG_DIR g'\<rparr>)]"
    unfolding t main_trace Let_def sel fc tr kc g' [symmetric] by simp
qed

subsection \<open>Reachable globals and runs\<close>

text \<open>
  The intervals are never zero in a run and \<open>best_mean_reward\<close> stays a number at least \<open>-10000\<close>.
\<close>

lemma started_facts:
  assumes "started g"
  shows "(SAVE_INTERVAL g = 500 \<or> SAVE_INTERVAL g = 20) \<and>
    (LOG_INTERVAL g = 100 \<or> LOG_INTERVAL g = 1 \<or> LOG_INTERVAL g = 10) \<and>
    best_mean_reward g = Num (- 10000) \<and> \<not> params_saved g \<and> n_steps g = 0 \<and>
    (viz g = VNone \<or> viz g = VFalse)"
  using assms
proof cases
  case loaded
  then show ?thesis
    by (simp add: initial_globals_def)
next
  case (launched w args0 args kuka kuka' es)
  then have g: "g = snd (snd (snd (main w args0 args kuka initial_globals)))"
    by simp
  show ?thesis
    unfolding g
    by (simp add: main_state select_algo_intervals main_globals_state initial_globals_def
          split: option.splits)
qed

lemma reachable_inv:
  assumes "reachable g"
  shows "(SAVE_INTERVAL g = 500 \<or> SAVE_INTERVAL g = 20) \<and>
    (LOG_INTERVAL g = 100 \<or> LOG_INTERVAL g = 1 \<or> LOG_INTERVAL g = 10) \<and>
    py_ge (best_mean_reward g) (Num (- 10000))"
  using assms
proof induction
  case (start g)
  then show ?case
    using started_facts [of g] by simp
next
  case (invoked g w l out es g')
  then show ?case
    using callback_frame(1,2) [of w l g out es g'] callback_best [of w l g out es g']
    by (auto intro: py_gt_ge_trans)
qed

lemma reachable_intervals:
  assumes "reachable g"
  shows "SAVE_INTERVAL g \<noteq> 0" and "LOG_INTERVAL g \<noteq> 0"
  using reachable_inv [OF assms] by auto

lemma reachable_best:
  assumes "reachable g"
  shows "py_ge (best_mean_reward g) (Num (- 10000))"
  using reachable_inv [OF assms] by simp

lemma run_step:
  assumes "run ((w, l) # rest) g = (es, g')"
  obtains out es1 g1 es2 where
    "callback w l g = (out, es1, g1)" "run rest g1 = (es2, g')" "es = es1 @ es2"
  using assms by (auto split: prod.splits)

lemma run_frame:
  assumes "run ins g = (es, g')"
  shows "LOG_DIR g' = LOG_DIR g \<and> (viz g' = VFalse \<longleftrightarrow> viz g = VFalse) \<and>
         (params_saved g \<longrightarrow> params_saved g')"
  using assms
proof (induction ins arbitrary: g es)
  case Nil
  then show ?case by simp
next
  case (Cons x ins)
  obtain w l where x: "x = (w, l)" by (cases x)
  from Cons.prems obtain out es1 g1 es2 where
    c: "callback w l g = (out, es1, g1)" and r: "run ins g1 = (es2, g')"
    unfolding x by (rule run_step)
  from callback_frame(3,8,9) [OF c] Cons.IH [OF r] show ?case
    by auto
qed

lemma run_saved:
  assumes "run ins g = (es, g')" and "params_saved g"
  shows "filter (writes (LOG_DIR g @ ''rl_locals.json'')) es = []"
  using assms
proof (induction ins arbitrary: g es)
  case Nil
  then show ?case by simp
next
  case (Cons x ins)
  obtain w l where x: "x = (w, l)" by (cases x)
  from Cons.prems(1) obtain out es1 g1 es2 where
    c: "callback w l g = (out, es1, g1)" and r: "run ins g1 = (es2, g')" and es: "es = es1 @ es2"
    unfolding x by (rule run_step)
  from callback_frame(3,8) [OF c] Cons.IH [OF r] callback_writes [OF c] Cons.prems(2) es
  show ?case by simp
qed

lemma run_no_vis:
  assumes "run ins g = (es, g')" and "viz g = VFalse"
  shows "filter is_connect es = [] \<and> filter is_visdom_plot es = [] \<and>
         filter is_episode_plot es = []"
  using assms
proof (induction ins arbitrary: g es)
  case Nil
  then show ?case by simp
next
  case (Cons x ins)
  obtain w l where x: "x = (w, l)" by (cases x)
  from Cons.prems(1) obtain out es1 g1 es2 where
    c: "callback w l g = (out, es1, g1)" and r: "run ins g1 = (es2, g')" and es: "es = es1 @ es2"
    unfolding x by (rule run_step)
  from callback_frame(9) [OF c] Cons.prems(2) have "viz g1 = VFalse" by simp
  from Cons.IH [OF r this] callback_connects [OF c] callback_plots [OF c] Cons.prems(2) es
  show ?case by simp
qed

lemma run_reachable:
  assumes "run ins g = (es, g')" and "reachable g"
  shows "reachable g'"
  using assms
proof (induction ins arbitrary: g es)
  case Nil
  then show ?case by simp
next
  case (Cons x ins)
  obtain w l where x: "x = (w, l)" by (cases x)
  from Cons.prems(1) obtain out es1 g1 es2 where
    c: "callback w l g = (out, es1, g1)" and r: "run ins g1 = (es2, g')"
    unfolding x by (rule run_step)
  from reachable.invoked [OF Cons.prems(2) c] Cons.IH [OF r] show ?case by blast
qed

subsection \<open>The concrete inputs\<close>

text \<open>
  The globals \<open>training alg n\<close> are reached by \<open>n\<close> invocations in \<open>quiet_world\<close>.
\<close>

lemma quiet_world_fields [simp]:
  "filterJSONSerializableObjects quiet_world = filter (\<lambda>kv. \<not> is_object (snd kv))"
  "computeMeanReward quiet_world = (\<lambda>d n. (False, Num 0))"
  "visdom_plot quiet_world = (\<lambda>v win d e a b s t. win)"
  "episode_plot quiet_world = (\<lambda>v win d e a n t. win)"
  "getGlobals quiet_world =
     (\<lambda>k. [(''ACTION_REPEAT'', PyInt (ACTION_REPEAT k)), (''USE_SRL'', PyBool (USE_SRL k))])"
  "models quiet_world =
     [(''log_folder'', ''srl_priors/logs/''), (''autoencoder'', ''autoencoder/model.pth'')]"
  "strftime_now quiet_world = ''04-11-26_10h02_00''"
  by (simp_all add: quiet_world_def)

lemma rewarding_world_fields [simp]:
  "filterJSONSerializableObjects (rewarding_world r) = filter (\<lambda>kv. \<not> is_object (snd kv))"
  "computeMeanReward (rewarding_world r) = (\<lambda>d n. (True, Num r))"
  by (simp_all add: rewarding_world_def)

lemma default_args_fields [simp]:
  "algo (default_args alg nv) = alg"
  "env (default_args alg nv) = ''KukaButtonGymEnv-v0''"
  "seed (default_args alg nv) = 0"
  "log_dir (default_args alg nv) = ''/tmp/gym/''"
  "num_timesteps (default_args alg nv) = 1000000"
  "srl_model (default_args alg nv) = ''''"
  "num_stack (default_args alg nv) = 4"
  "action_repeat (default_args alg nv) = 1"
  "port (default_args alg nv) = 8097"
  "no_vis (default_args alg nv) = nv"
  "custom (default_args alg nv) = []"
  by (simp_all add: default_args_def)

lemma kuka0_fields [simp]:
  "USE_GROUND_TRUTH kuka0 = False" "USE_SRL kuka0 = False" "SRL_MODEL_PATH kuka0 = None"
  "ACTION_REPEAT kuka0 = 1"
  by (simp_all add: kuka0_def)

lemma training_fields [simp]:
  "VISDOM_PORT (training alg n) = 8097"
  "LOG_INTERVAL (training alg n) =
     (if alg = ''acer'' then 1 else if alg = ''ppo2'' then 10 else 100)"
  "LOG_DIR (training alg n) = ''/tmp/gym/raw_pixels/'' @ alg @ ''/04-11-26_10h02_00/''"
  "ALGO (training alg n) = alg"
  "viz (training alg n) = VVisdom 8097"
  "n_steps (training alg n) = n"
  "SAVE_INTERVAL (training alg n) = (if alg = ''acer'' then 20 else 500)"
  "params_saved (training alg n) = True"
  "best_mean_reward (training alg n) = Num (- 10000)"
  by (simp_all add: training_def)

lemma rewarding_mean [simp]: "mean_reward (rewarding_world r) g = Num r"
  by (simp add: mean_reward_def)

lemma quiet_mean [simp]: "mean_reward quiet_world g = Num (- 10000)"
  by (simp add: mean_reward_def)

lemma main_default:
  assumes "algo a0 \<in> {''deepq'', ''acer'', ''a2c'', ''ppo2'', ''random_agent'', ''random_search''}"
  shows "fst (main quiet_world a0 (default_args alg nv) k g) = Inr ()"
proof -
  have sel: "fst (select_algo (algo a0) (main_globals a0 g)) = Some (algo a0)"
    using assms by (auto simp add: select_algo_result)
  show ?thesis
    unfolding main_result sel by (simp add: cfg_result srl_result)
qed

lemma quiet_world_idle:
  assumes "reachable g"
  shows "snd (snd (callback quiet_world l g)) =
     g\<lparr>viz := (if viz g = VNone then VVisdom (VISDOM_PORT g) else viz g),
       params_saved := True, n_steps := n_steps g + 1\<rparr>"
proof (rule callback_quiet)
  show "SAVE_INTERVAL g \<noteq> 0" and "LOG_INTERVAL g \<noteq> 0"
    using reachable_intervals [OF assms] by simp_all
  have "mean_reward quiet_world g = Num (- 10000)"
    by (simp add: mean_reward_def quiet_world_def)
  then show "\<not> py_gt (mean_reward quiet_world g) (best_mean_reward g)"
    using py_ge_not_gt [OF reachable_best [OF assms]] by simp
  show "visdom_plot quiet_world = (\<lambda>v win d e a b s t. win)"
    and "episode_plot quiet_world = (\<lambda>v win d e a n t. win)"
    by (simp_all add: quiet_world_def)
qed

lemma reachable_idle:
  assumes "reachable g"
  shows "reachable (g\<lparr>viz := (if viz g = VNone then VVisdom (VISDOM_PORT g) else viz g),
       params_saved := True, n_steps := n_steps g + 1 + int k\<rparr>)"
proof (induction k)
  case 0
  have "callback quiet_world [] g =
      (fst (callback quiet_world [] g), fst (snd (callback quiet_world [] g)),
       snd (snd (callback quiet_world [] g)))"
    by simp
  from reachable.invoked [OF assms this] show ?case
    by (simp add: quiet_world_idle [OF assms])
next
  case (Suc k)
  let ?g = "g\<lparr>viz := (if viz g = VNone then VVisdom (VISDOM_PORT g) else viz g),
       params_saved := True, n_steps := n_steps g + 1 + int k\<rparr>"
  have "callback quiet_world [] ?g =
      (fst (callback quiet_world [] ?g), fst (snd (callback quiet_world [] ?g)),
       snd (snd (callback quiet_world [] ?g)))"
    by simp
  from reachable.invoked [OF Suc.IH this]
  have "reachable (snd (snd (callback quiet_world [] ?g)))" .
  moreover have "snd (snd (callback quiet_world [] ?g)) =
      g\<lparr>viz := (if viz g = VNone then VVisdom (VISDOM_PORT g) else viz g),
        params_saved := True, n_steps := n_steps g + 1 + int (Suc k)\<rparr>"
    unfolding quiet_world_idle [OF Suc.IH] by (simp add: add.assoc)
  ultimately show ?case by simp
qed

lemma started_default:
  assumes "alg \<in> {''deepq'', ''acer'', ''a2c'', ''ppo2'', ''random_agent'', ''random_search''}"
  shows "started ((training alg 0)\<lparr>viz := VNone, params_saved := False\<rparr>)"
proof -
  let ?m = "main quiet_world (default_args alg False) (default_args alg False) kuka0 initial_globals"
  have r: "fst ?m = Inr ()"
    using assms
    by (simp add: main_result select_algo_result cfg_result srl_result default_args_def
          split: option.splits sum.splits)
  have s: "snd (snd (snd ?m)) = (training alg 0)\<lparr>viz := VNone, params_saved := False\<rparr>"
    using assms
    by (simp add: main_state select_algo_result select_algo_state main_globals_state
          cfg_globals cfg_args srl_result srl_args srl_globals default_args_def training_def
          initial_globals_def quiet_world_def)
  have "?m = (Inr (), fst (snd ?m), fst (snd (snd ?m)),
              (training alg 0)\<lparr>viz := VNone, params_saved := False\<rparr>)"
    using r s by (simp add: prod_eq_iff)
  then show ?thesis
    by (rule started.launched)
qed

lemma reachable_training:
  assumes "alg \<in> {''deepq'', ''acer'', ''a2c'', ''ppo2'', ''random_agent'', ''random_search''}"
  shows "reachable (training alg (1 + int k))"
  using reachable_idle [OF reachable.start [OF started_default [OF assms]], of k]
  by (simp add: training_def)

section \<open>The claims\<close>

text \<open>
  C1 (amended). In every invocation of a run, the reward log is read exactly at the steps
  where \<open>n_steps + 1\<close> is a multiple of \<open>SAVE_INTERVAL\<close>; \<open>best_mean_reward\<close> becomes the
  mean reward (\<open>-10000\<close> when the evaluation is not ok) exactly when that is strictly
  greater at such a step; and \<open>.save()\<close> is called exactly when, in addition, \<open>ALGO\<close>
  is one of deepq, acer, a2c, ppo2 and \<open>_locals\<close> holds, under the key that branch reads,
  an object with a \<open>save\<close> method.
\<close>

theorem callback_checkpoint_rule:
  assumes "reachable g" and "callback w locals g = (out, es, g')"
  shows "filter is_read es =
           (if (n_steps g + 1) mod SAVE_INTERVAL g = 0
            then [Compute_mean_reward (LOG_DIR g) N_EPISODES_EVAL] else []) \<and>
         best_mean_reward g' =
           (if (n_steps g + 1) mod SAVE_INTERVAL g = 0 \<and>
               py_gt (mean_reward w g) (best_mean_reward g)
            then mean_reward w g else best_mean_reward g) \<and>
         (filter is_save es \<noteq> [] \<longleftrightarrow>
            (n_steps g + 1) mod SAVE_INTERVAL g = 0 \<and>
            py_gt (mean_reward w g) (best_mean_reward g) \<and>
            ALGO g \<in> {''deepq'', ''acer'', ''a2c'', ''ppo2''} \<and>
            (\<exists>m. map_of locals (if ALGO g = ''deepq'' then ''act'' else ''model'') = Some m \<and>
                 has_save m))"
proof -
  have nz: "SAVE_INTERVAL g \<noteq> 0"
    using assms(1) by (rule reachable_intervals)
  have reads: "filter is_read es =
           (if (n_steps g + 1) mod SAVE_INTERVAL g = 0
            then [Compute_mean_reward (LOG_DIR g) N_EPISODES_EVAL] else [])"
    using callback_reads [OF assms(2)] nz by simp
  have best: "best_mean_reward g' =
           (if (n_steps g + 1) mod SAVE_INTERVAL g = 0 \<and>
               py_gt (mean_reward w g) (best_mean_reward g)
            then mean_reward w g else best_mean_reward g)"
    using callback_best [OF assms(2)] nz by simp
  have "filter is_save es \<noteq> [] \<longleftrightarrow>
          (n_steps g + 1) mod SAVE_INTERVAL g = 0 \<and>
          py_gt (mean_reward w g) (best_mean_reward g) \<and> snd (save_model locals g) \<noteq> []"
    using callback_saves [OF assms(2)] nz by auto
  then have saves: "filter is_save es \<noteq> [] \<longleftrightarrow>
            (n_steps g + 1) mod SAVE_INTERVAL g = 0 \<and>
            py_gt (mean_reward w g) (best_mean_reward g) \<and>
            ALGO g \<in> {''deepq'', ''acer'', ''a2c'', ''ppo2''} \<and>
            (\<exists>m. map_of locals (if ALGO g = ''deepq'' then ''act'' else ''model'') = Some m \<and>
                 has_save m)"
    unfolding save_model_some by blast
  show ?thesis
    using reads best saves by blast
qed

theorem callback_checkpoint_rule_witness:
  "reachable (training ''acer'' 19) \<and>
   filter is_read (fst (snd (callback (rewarding_world 5) [(''model'', PyModel 1)] (training ''acer'' 19)))) =
     [Compute_mean_reward ''/tmp/gym/raw_pixels/acer/04-11-26_10h02_00/'' 50] \<and>
   best_mean_reward (snd (snd (callback (rewarding_world 5) [(''model'', PyModel 1)] (training ''acer'' 19)))) =
     Num 5 \<and>
   filter is_save (fst (snd (callback (rewarding_world 5) [(''model'', PyModel 1)] (training ''acer'' 19)))) \<noteq> [] \<and>
   filter is_save (fst (snd (callback (rewarding_world 5) [(''model'', PyNone)] (training ''acer'' 19)))) = []"
proof -
  have r: "reachable (training ''acer'' 19)"
    using reachable_training [of "''acer''" 18] by simp
  have model: "filter is_read (fst (snd (callback (rewarding_world 5) [(''model'', PyModel 1)] (training ''acer'' 19)))) =
     [Compute_mean_reward ''/tmp/gym/raw_pixels/acer/04-11-26_10h02_00/'' 50] \<and>
   best_mean_reward (snd (snd (callback (rewarding_world 5) [(''model'', PyModel 1)] (training ''acer'' 19)))) =
     Num 5 \<and>
   filter is_save (fst (snd (callback (rewarding_world 5) [(''model'', PyModel 1)] (training ''acer'' 19)))) \<noteq> []"
    using callback_checkpoint_rule [OF r callback_triple,
        of "rewarding_world 5" "[(''model'', PyModel 1)]"]
    by (simp add: training_def N_EPISODES_EVAL_def)
  have none: "filter is_save (fst (snd (callback (rewarding_world 5) [(''model'', PyNone)] (training ''acer'' 19)))) = []"
    using callback_checkpoint_rule [OF r callback_triple,
        of "rewarding_world 5" "[(''model'', PyNone)]"]
    by (simp add: training_def)
  show ?thesis
    using r model none by blast
qed

theorem random_agent_improves_without_save:
  "reachable (training ''random_agent'' 499) \<and>
   (n_steps (training ''random_agent'' 499) + 1) mod SAVE_INTERVAL (training ''random_agent'' 499) = 0 \<and>
   py_gt (mean_reward (rewarding_world 5) (training ''random_agent'' 499))
     (best_mean_reward (training ''random_agent'' 499)) \<and>
   filter is_save
     (fst (snd (callback (rewarding_world 5) [(''model'', PyModel 1)] (training ''random_agent'' 499)))) = [] \<and>
   best_mean_reward
     (snd (snd (callback (rewarding_world 5) [(''model'', PyModel 1)] (training ''random_agent'' 499)))) = Num 5"
proof -
  have r: "reachable (training ''random_agent'' 499)"
    using reachable_training [of "''random_agent''" 498] by simp
  show ?thesis
    using r callback_saves [OF callback_triple, of "rewarding_world 5" "[(''model'', PyModel 1)]"
        "training ''random_agent'' 499"]
      callback_best [OF callback_triple, of "rewarding_world 5" "[(''model'', PyModel 1)]"
        "training ''random_agent'' 499"]
    by (simp add: training_def save_model_events)
qed

text \<open>
  C2 (amended). When the callback observes at a save step a mean reward strictly greater
  than the running best: for deepq it looks up \<open>_locals['act']\<close>, for acer, a2c and ppo2
  \<open>_locals['model']\<close>, and calls \<open>.save(LOG_DIR + ALGO + "_model.pkl")\<close> on the object
  found when it has a \<open>save\<close> method; it calls no \<open>.save()\<close> and raises KeyError when
  \<open>_locals\<close> lacks the key, AttributeError when the value found has no attribute \<open>save\<close>;
  for every other algorithm (random_agent, random_search) it calls no \<open>.save()\<close>.
\<close>

theorem checkpoint_save_call:
  assumes "reachable g" and "callback w locals g = (out, es, g')"
    and "(n_steps g + 1) mod SAVE_INTERVAL g = 0"
    and "py_gt (mean_reward w g) (best_mean_reward g)"
  shows "(ALGO g \<in> {''deepq'', ''acer'', ''a2c'', ''ppo2''} \<longrightarrow>
           (case map_of locals (if ALGO g = ''deepq'' then ''act'' else ''model'') of
              Some m \<Rightarrow>
                if has_save m
                then filter is_save es = [Model_save m (LOG_DIR g @ ALGO g @ ''_model.pkl'')]
                else filter is_save es = [] \<and> out = Inl (AttributeError ''save'')
            | None \<Rightarrow>
                filter is_save es = [] \<and>
                out = Inl (KeyError (if ALGO g = ''deepq'' then ''act'' else ''model'')))) \<and>
         (ALGO g \<notin> {''deepq'', ''acer'', ''a2c'', ''ppo2''} \<longrightarrow> filter is_save es = [])"
proof -
  have nz: "SAVE_INTERVAL g \<noteq> 0"
    using assms(1) by (rule reachable_intervals)
  have saves: "filter is_save es = snd (save_model locals g)"
    using callback_saves [OF assms(2)] assms(3,4) nz by simp
  have out: "fst (save_model locals g) \<noteq> None \<Longrightarrow> out = Inl (the (fst (save_model locals g)))"
    using callback_out [OF assms(2)] assms(3,4) nz by simp
  show ?thesis
    unfolding saves using out
    by (simp add: save_model_events save_model_result split: option.splits)
qed

theorem checkpoint_save_call_witness:
  "reachable (training ''acer'' 19) \<and>
   (n_steps (training ''acer'' 19) + 1) mod SAVE_INTERVAL (training ''acer'' 19) = 0 \<and>
   py_gt (mean_reward (rewarding_world 5) (training ''acer'' 19)) (best_mean_reward (training ''acer'' 19)) \<and>
   filter is_save (fst (snd (callback (rewarding_world 5) [(''model'', PyModel 1)] (training ''acer'' 19)))) =
     [Model_save (PyModel 1) ''/tmp/gym/raw_pixels/acer/04-11-26_10h02_00/acer_model.pkl''] \<and>
   filter is_save (fst (snd (callback (rewarding_world 5) [(''model'', PyInt 3)] (training ''acer'' 19)))) = [] \<and>
   fst (callback (rewarding_world 5) [(''model'', PyInt 3)] (training ''acer'' 19)) =
     Inl (AttributeError ''save'')"
proof -
  have r: "reachable (training ''acer'' 19)"
    using reachable_training [of "''acer''" 18] by simp
  have s: "(n_steps (training ''acer'' 19) + 1) mod SAVE_INTERVAL (training ''acer'' 19) = 0"
    by (simp add: training_def)
  have b: "py_gt (mean_reward (rewarding_world 5) (training ''acer'' 19))
             (best_mean_reward (training ''acer'' 19))"
    by (simp add: training_def)
  have model: "filter is_save (fst (snd (callback (rewarding_world 5) [(''model'', PyModel 1)] (training ''acer'' 19)))) =
     [Model_save (PyModel 1) ''/tmp/gym/raw_pixels/acer/04-11-26_10h02_00/acer_model.pkl'']"
    using checkpoint_save_call [OF r callback_triple s b, of "[(''model'', PyModel 1)]"]
    by (simp add: training_def)
  have number: "filter is_save (fst (snd (callback (rewarding_world 5) [(''model'', PyInt 3)] (training ''acer'' 19)))) = [] \<and>
   fst (callback (rewarding_world 5) [(''model'', PyInt 3)] (training ''acer'' 19)) =
     Inl (AttributeError ''save'')"
    using checkpoint_save_call [OF r callback_triple s b, of "[(''model'', PyInt 3)]"]
    by (simp add: training_def)
  show ?thesis
    using r s b model number by blast
qed

theorem random_search_calls_no_save:
  "reachable (training ''random_search'' 499) \<and>
   (n_steps (training ''random_search'' 499) + 1) mod SAVE_INTERVAL (training ''random_search'' 499) = 0 \<and>
   py_gt (mean_reward (rewarding_world 12) (training ''random_search'' 499))
     (best_mean_reward (training ''random_search'' 499)) \<and>
   filter is_save
     (fst (snd (callback (rewarding_world 12) [(''model'', PyModel 7), (''act'', PyModel 8)]
        (training ''random_search'' 499)))) = []"
proof -
  have r: "reachable (training ''random_search'' 499)"
    using reachable_training [of "''random_search''" 498] by simp
  show ?thesis
    using r callback_saves [OF callback_triple, of "rewarding_world 12"
        "[(''model'', PyModel 7), (''act'', PyModel 8)]" "training ''random_search'' 499"]
    by (simp add: training_def save_model_events)
qed

text \<open>
  C3. At a save step where the evaluation is not ok, or where the computed mean reward is
  not strictly greater than \<open>best_mean_reward\<close>, the callback calls no \<open>.save()\<close> and
  leaves \<open>best_mean_reward\<close> unchanged; it returns False with \<open>n_steps\<close> incremented, so
  the next evaluation is at the next save step.
\<close>

theorem insufficient_reward_saves_nothing:
  assumes "reachable g" and "callback w locals g = (out, es, g')"
    and "(n_steps g + 1) mod SAVE_INTERVAL g = 0"
    and "\<not> fst (computeMeanReward w (LOG_DIR g) N_EPISODES_EVAL) \<or>
         \<not> py_gt (snd (computeMeanReward w (LOG_DIR g) N_EPISODES_EVAL)) (best_mean_reward g)"
  shows "filter is_save es = [] \<and> best_mean_reward g' = best_mean_reward g \<and>
         out = Inr False \<and> n_steps g' = n_steps g + 1"
proof -
  have nz: "SAVE_INTERVAL g \<noteq> 0" "LOG_INTERVAL g \<noteq> 0"
    using assms(1) by (rule reachable_intervals)+
  have "\<not> py_gt (Num (- 10000)) (best_mean_reward g)"
    using assms(1) by (intro py_ge_not_gt reachable_best)
  with assms(4) have low: "\<not> py_gt (mean_reward w g) (best_mean_reward g)"
    by (auto simp add: mean_reward_def split: prod.splits)
  have out: "out = Inr False"
    using callback_out [OF assms(2)] nz low by simp
  show ?thesis
    using callback_saves [OF assms(2)] callback_best [OF assms(2)] callback_n_steps [OF assms(2)]
      low out
    by simp
qed

theorem insufficient_reward_saves_nothing_witness:
  "reachable (training ''acer'' 19) \<and>
   (n_steps (training ''acer'' 19) + 1) mod SAVE_INTERVAL (training ''acer'' 19) = 0 \<and>
   \<not> fst (computeMeanReward quiet_world (LOG_DIR (training ''acer'' 19)) N_EPISODES_EVAL) \<and>
   filter is_save (fst (snd (callback quiet_world [(''model'', PyModel 1)] (training ''acer'' 19)))) = [] \<and>
   best_mean_reward (snd (snd (callback quiet_world [(''model'', PyModel 1)] (training ''acer'' 19)))) =
     Num (- 10000) \<and>
   fst (callback quiet_world [(''model'', PyModel 1)] (training ''acer'' 19)) = Inr False \<and>
   n_steps (snd (snd (callback quiet_world [(''model'', PyModel 1)] (training ''acer'' 19)))) = 20"
proof -
  have r: "reachable (training ''acer'' 19)"
    using reachable_training [of "''acer''" 18] by simp
  have s: "(n_steps (training ''acer'' 19) + 1) mod SAVE_INTERVAL (training ''acer'' 19) = 0"
    by (simp add: training_def)
  have q: "\<not> fst (computeMeanReward quiet_world (LOG_DIR (training ''acer'' 19)) N_EPISODES_EVAL)"
    by (simp add: quiet_world_def)
  show ?thesis
    using r s q insufficient_reward_saves_nothing [OF r callback_triple s disjI1 [OF q],
        of "[(''model'', PyModel 1)]"]
    by (simp add: training_def)
qed

text \<open>
  C8. No invocation of the callback lowers \<open>best_mean_reward\<close>, and in every run it stays
  at least \<open>-10000\<close>, its initial value.
\<close>

theorem best_mean_reward_never_decreases:
  assumes "reachable g" and "callback w locals g = (out, es, g')"
  shows "py_ge (best_mean_reward g') (best_mean_reward g) \<and>
         py_ge (best_mean_reward g') (Num (- 10000)) \<and>
         best_mean_reward initial_globals = Num (- 10000)"
proof -
  have b: "py_ge (best_mean_reward g) (Num (- 10000))"
    using assms(1) by (rule reachable_best)
  have "py_ge (best_mean_reward g') (Num (- 10000))"
    using reachable.invoked [OF assms] by (rule reachable_best)
  moreover have "py_ge (best_mean_reward g') (best_mean_reward g)"
    using callback_best [OF assms(2)] py_ge_refl [OF b] by (simp add: py_gt_ge)
  ultimately show ?thesis
    by (simp add: initial_globals_def)
qed

theorem best_mean_reward_never_decreases_witness:
  "reachable (training ''acer'' 19) \<and>
   best_mean_reward (training ''acer'' 19) = Num (- 10000) \<and>
   best_mean_reward (snd (snd (callback (rewarding_world 5) [(''model'', PyModel 1)] (training ''acer'' 19)))) = Num 5 \<and>
   py_ge (Num 5) (Num (- 10000))"
proof -
  have r: "reachable (training ''acer'' 19)"
    using reachable_training [of "''acer''" 18] by simp
  show ?thesis
    using r best_mean_reward_never_decreases [OF r callback_triple,
        of "rewarding_world 5" "[(''model'', PyModel 1)]"]
      callback_best [OF callback_triple, of "rewarding_world 5" "[(''model'', PyModel 1)]"
        "training ''acer'' 19"]
    by (simp add: training_def)
qed

text \<open>
  C4 (amended). For every args whose \<open>srl_model\<close> is empty, is \<open>ground_truth\<close>, or has an
  entry in the table of SRL models (which then also has \<open>log_folder\<close>),
  \<open>configureEnvAndLogFolder\<close> appends to \<open>args.log_dir\<close> the model name and "/"
  (\<open>raw_pixels/\<close> when the name is empty), then \<open>ALGO\<close> and the formatted date and time,
  each followed by "/", sets \<open>LOG_DIR\<close> to the result, creates that directory and returns
  args; \<open>main\<close> then dumps the filtered \<open>vars(args)\<close> to \<open>LOG_DIR + "args.json"\<close>.
\<close>

theorem configure_log_folder:
  assumes "srl_model args = '''' \<or> srl_model args = ''ground_truth'' \<or>
           map_of (models w) (srl_model args) \<noteq> None \<and> map_of (models w) ''log_folder'' \<noteq> None"
  shows "(\<exists>kuka' g'.
            configureEnvAndLogFolder w args kuka g =
              (Inr (args\<lparr>log_dir := LOG_DIR g'\<rparr>), args\<lparr>log_dir := LOG_DIR g'\<rparr>, kuka',
               [Make_dirs (LOG_DIR g')], g') \<and>
            LOG_DIR g' =
              log_dir args @ (if srl_model args = '''' then ''raw_pixels/'' else srl_model args @ ''/'') @
              ALGO g @ ''/'' @ strftime_now w @ ''/'') \<and>
         (main w args0 args kuka1 g1 = (Inr (), kuka2, es, g2) \<longrightarrow>
            take 2 (drop 3 es) =
              [Make_dirs (LOG_DIR g2),
               Json_dump (LOG_DIR g2 @ ''args.json'')
                 (filterJSONSerializableObjects w (vars (args\<lparr>log_dir := LOG_DIR g2\<rparr>)))])"
proof (intro conjI impI)
  let ?c = "configureEnvAndLogFolder w args kuka g"
  have srl: "fst (configure_srl w args kuka g) = None"
    using assms by (rule configure_supported)
  have a: "fst (snd ?c) = args\<lparr>log_dir :=
      log_dir args @ (if srl_model args = '''' then ''raw_pixels/'' else srl_model args @ ''/'') @
      ALGO g @ ''/'' @ strftime_now w @ ''/''\<rparr>"
    using srl by (simp add: cfg_args srl_args)
  have d: "LOG_DIR (snd (snd (snd (snd ?c)))) =
      log_dir args @ (if srl_model args = '''' then ''raw_pixels/'' else srl_model args @ ''/'') @
      ALGO g @ ''/'' @ strftime_now w @ ''/''"
    using srl by (simp add: cfg_globals a)
  have a': "fst (snd ?c) = args\<lparr>log_dir := LOG_DIR (snd (snd (snd (snd ?c))))\<rparr>"
    unfolding a d ..
  have "?c = (Inr (args\<lparr>log_dir := LOG_DIR (snd (snd (snd (snd ?c))))\<rparr>),
              args\<lparr>log_dir := LOG_DIR (snd (snd (snd (snd ?c))))\<rparr>, fst (snd (snd ?c)),
              [Make_dirs (LOG_DIR (snd (snd (snd (snd ?c)))))], snd (snd (snd (snd ?c))))"
    using srl a' by (simp add: prod_eq_iff cfg_result cfg_trace)
  with d show "\<exists>kuka' g'.
            configureEnvAndLogFolder w args kuka g =
              (Inr (args\<lparr>log_dir := LOG_DIR g'\<rparr>), args\<lparr>log_dir := LOG_DIR g'\<rparr>, kuka',
               [Make_dirs (LOG_DIR g')], g') \<and>
            LOG_DIR g' =
              log_dir args @ (if srl_model args = '''' then ''raw_pixels/'' else srl_model args @ ''/'') @
              ALGO g @ ''/'' @ strftime_now w @ ''/''"
    by blast
next
  assume m: "main w args0 args kuka1 g1 = (Inr (), kuka2, es, g2)"
  show "take 2 (drop 3 es) =
              [Make_dirs (LOG_DIR g2),
               Json_dump (LOG_DIR g2 @ ''args.json'')
                 (filterJSONSerializableObjects w (vars (args\<lparr>log_dir := LOG_DIR g2\<rparr>)))]"
    by (subst main_success(5) [OF m]) simp
qed

theorem configure_log_folder_witness:
  "srl_model (default_args ''deepq'' False) = '''' \<and>
   fst (configureEnvAndLogFolder quiet_world (default_args ''deepq'' False) kuka0
          (main_globals (default_args ''deepq'' False) initial_globals)) =
     Inr ((default_args ''deepq'' False)\<lparr>log_dir := ''/tmp/gym/raw_pixels/deepq/04-11-26_10h02_00/''\<rparr>) \<and>
   fst (snd (snd (snd (configureEnvAndLogFolder quiet_world (default_args ''deepq'' False) kuka0
          (main_globals (default_args ''deepq'' False) initial_globals))))) =
     [Make_dirs ''/tmp/gym/raw_pixels/deepq/04-11-26_10h02_00/''] \<and>
   fst (main quiet_world (default_args ''deepq'' False) (default_args ''deepq'' False) kuka0
          initial_globals) = Inr () \<and>
   take 2 (drop 3 (fst (snd (snd (main quiet_world (default_args ''deepq'' False)
          (default_args ''deepq'' False) kuka0 initial_globals))))) =
     [Make_dirs ''/tmp/gym/raw_pixels/deepq/04-11-26_10h02_00/'',
      Json_dump ''/tmp/gym/raw_pixels/deepq/04-11-26_10h02_00/args.json''
        (vars ((default_args ''deepq'' False)\<lparr>log_dir := ''/tmp/gym/raw_pixels/deepq/04-11-26_10h02_00/''\<rparr>))]"
proof -
  let ?a = "default_args ''deepq'' False"
  let ?g = "main_globals ?a initial_globals"
  let ?c = "configureEnvAndLogFolder quiet_world ?a kuka0 ?g"
  let ?m = "main quiet_world ?a ?a kuka0 initial_globals"
  have e: "srl_model ?a = ''''"
    by simp
  have r: "fst ?m = Inr ()"
    by (rule main_default) simp
  note m = main_quadruple [OF r]
  note t = configure_log_folder [where args = ?a and w = quiet_world and kuka = kuka0 and g = ?g
      and ?args0.0 = ?a and ?kuka1.0 = kuka0 and ?g1.0 = initial_globals
      and ?kuka2.0 = "fst (snd ?m)" and es = "fst (snd (snd ?m))" and ?g2.0 = "snd (snd (snd ?m))",
      OF disjI1 [OF e]]
  from t obtain kuka' g' where
    c: "?c = (Inr (?a\<lparr>log_dir := LOG_DIR g'\<rparr>), ?a\<lparr>log_dir := LOG_DIR g'\<rparr>, kuka',
              [Make_dirs (LOG_DIR g')], g')"
    and d: "LOG_DIR g' = log_dir ?a @ (if srl_model ?a = '''' then ''raw_pixels/'' else srl_model ?a @ ''/'') @
              ALGO ?g @ ''/'' @ strftime_now quiet_world @ ''/''"
    by blast
  have d': "LOG_DIR g' = ''/tmp/gym/raw_pixels/deepq/04-11-26_10h02_00/''"
    unfolding d by (simp add: main_globals_state)
  have c1: "fst ?c = Inr (?a\<lparr>log_dir := ''/tmp/gym/raw_pixels/deepq/04-11-26_10h02_00/''\<rparr>)"
    and c2: "fst (snd (snd (snd ?c))) = [Make_dirs ''/tmp/gym/raw_pixels/deepq/04-11-26_10h02_00/'']"
    unfolding c d' by simp_all
  have d2: "LOG_DIR (snd (snd (snd ?m))) = ''/tmp/gym/raw_pixels/deepq/04-11-26_10h02_00/''"
    using main_success(3) [OF m] by simp
  from t m have "take 2 (drop 3 (fst (snd (snd ?m)))) =
      [Make_dirs (LOG_DIR (snd (snd (snd ?m)))),
       Json_dump (LOG_DIR (snd (snd (snd ?m))) @ ''args.json'')
         (filterJSONSerializableObjects quiet_world
            (vars (?a\<lparr>log_dir := LOG_DIR (snd (snd (snd ?m)))\<rparr>)))]"
    by blast
  then have c3: "take 2 (drop 3 (fst (snd (snd ?m)))) =
     [Make_dirs ''/tmp/gym/raw_pixels/deepq/04-11-26_10h02_00/'',
      Json_dump ''/tmp/gym/raw_pixels/deepq/04-11-26_10h02_00/args.json''
        (vars (?a\<lparr>log_dir := ''/tmp/gym/raw_pixels/deepq/04-11-26_10h02_00/''\<rparr>))]"
    unfolding d2 by (simp add: vars_def)
  show ?thesis
    using e c1 c2 r c3 by blast
qed

theorem unsupported_srl_model_raises:
  "configureEnvAndLogFolder quiet_world ((default_args ''deepq'' False)\<lparr>srl_model := ''srl_priors''\<rparr>)
     kuka0 (main_globals (default_args ''deepq'' False) initial_globals) =
   (Inl (ValueError ''Unsupported value for srl-model: srl_priors''),
    (default_args ''deepq'' False)\<lparr>srl_model := ''srl_priors'', log_dir := ''/tmp/gym/srl_priors/''\<rparr>,
    kuka0, [],
    (main_globals (default_args ''deepq'' False) initial_globals)\<lparr>PLOT_TITLE := ''srl_priors''\<rparr>) \<and>
   LOG_DIR ((main_globals (default_args ''deepq'' False) initial_globals)\<lparr>PLOT_TITLE := ''srl_priors''\<rparr>) = ''''"
proof -
  let ?a = "(default_args ''deepq'' False)\<lparr>srl_model := ''srl_priors''\<rparr>"
  let ?g = "main_globals (default_args ''deepq'' False) initial_globals"
  let ?c = "configureEnvAndLogFolder quiet_world ?a kuka0 ?g"
  have srl: "fst (configure_srl quiet_world ?a kuka0 ?g) =
      Some (ValueError ''Unsupported value for srl-model: srl_priors'')"
    by (simp add: srl_result)
  have c1: "fst ?c = Inl (ValueError ''Unsupported value for srl-model: srl_priors'')"
    unfolding cfg_result srl by simp
  have c2: "fst (snd ?c) = ?a\<lparr>log_dir := ''/tmp/gym/srl_priors/''\<rparr>"
    unfolding cfg_args srl by (simp add: srl_args)
  have c3: "fst (snd (snd ?c)) = kuka0"
    unfolding cfg_kuka by (simp add: srl_kuka)
  have c4: "fst (snd (snd (snd ?c))) = []"
    unfolding cfg_trace srl by simp
  have c5: "snd (snd (snd (snd ?c))) = ?g\<lparr>PLOT_TITLE := ''srl_priors''\<rparr>"
    unfolding cfg_globals srl by (simp add: srl_globals)
  have "?c = (Inl (ValueError ''Unsupported value for srl-model: srl_priors''),
       ?a\<lparr>log_dir := ''/tmp/gym/srl_priors/''\<rparr>, kuka0, [], ?g\<lparr>PLOT_TITLE := ''srl_priors''\<rparr>)"
    unfolding prod_eq_iff fst_conv snd_conv using c1 c2 c3 c4 c5 by blast
  moreover have "LOG_DIR (?g\<lparr>PLOT_TITLE := ''srl_priors''\<rparr>) = ''''"
    by (simp add: main_globals_state initial_globals_def)
  ultimately show ?thesis
    by blast
qed

text \<open>
  C5 (amended). In a run started by \<open>main\<close>, an invocation of the callback that returns
  refreshes the plots (\<open>visdom_plot\<close> twice, \<open>episode_plot\<close> once) exactly when \<open>--no-vis\<close>
  was not given and \<open>n_steps + 1\<close> is a multiple of \<open>LOG_INTERVAL\<close>; an invocation that
  raises refreshes none; and with \<open>--no-vis\<close> the whole run creates no Visdom connection
  and refreshes no plot.
\<close>

theorem plots_when_enabled:
  assumes "main w0 args0 args kuka initial_globals = (Inr (), kuka', es0, g0)"
    and "run invocations g0 = (es1, g)"
    and "callback w locals g = (out, es, g')"
  shows "(out = Inr False \<longrightarrow>
            length (filter is_visdom_plot es) =
              (if \<not> no_vis args0 \<and> (n_steps g + 1) mod LOG_INTERVAL g = 0 then 2 else 0) \<and>
            length (filter is_episode_plot es) =
              (if \<not> no_vis args0 \<and> (n_steps g + 1) mod LOG_INTERVAL g = 0 then 1 else 0)) \<and>
         (out \<noteq> Inr False \<longrightarrow>
            filter is_visdom_plot es = [] \<and> filter is_episode_plot es = []) \<and>
         (no_vis args0 \<longrightarrow>
            filter is_connect (es0 @ es1 @ es) = [] \<and>
            filter is_visdom_plot (es0 @ es1 @ es) = [] \<and>
            filter is_episode_plot (es0 @ es1 @ es) = [])"
proof -
  have g0: "g0 = snd (snd (snd (main w0 args0 args kuka initial_globals)))"
    using assms(1) by simp
  have sel: "fst (select_algo (algo args0) (main_globals args0 initial_globals)) = Some (algo args0)"
    using main_success(1) [OF assms(1)] by (simp add: select_algo_result)
  have "viz g0 = viz (main_globals args0 initial_globals)"
    unfolding g0 main_state sel by simp
  also have "\<dots> = (if no_vis args0 then VFalse else VNone)"
    by (simp add: main_globals_state initial_globals_def)
  finally have v0: "viz g0 = VFalse \<longleftrightarrow> no_vis args0"
    by simp
  with run_frame [OF assms(2)] have v: "viz g = VFalse \<longleftrightarrow> no_vis args0"
    by simp
  have quiet0: "filter is_connect es0 = [] \<and> filter is_visdom_plot es0 = [] \<and>
      filter is_episode_plot es0 = []"
    unfolding main_success(5) [OF assms(1)] by simp
  have quiet1: "no_vis args0 \<Longrightarrow> filter is_connect es1 = [] \<and> filter is_visdom_plot es1 = [] \<and>
      filter is_episode_plot es1 = []"
    using run_no_vis [OF assms(2)] v0 by simp
  show ?thesis
    using callback_plots [OF assms(3)] callback_connects [OF assms(3)] v quiet0 quiet1
    by auto
qed

theorem plots_when_enabled_witness:
  "fst (main quiet_world (default_args ''acer'' False) (default_args ''acer'' False) kuka0
          initial_globals) = Inr () \<and>
   \<not> no_vis (default_args ''acer'' False) \<and>
   length (filter is_visdom_plot (fst (snd (callback quiet_world []
      (snd (snd (snd (main quiet_world (default_args ''acer'' False) (default_args ''acer'' False)
         kuka0 initial_globals)))))))) = 2 \<and>
   length (filter is_episode_plot (fst (snd (callback quiet_world []
      (snd (snd (snd (main quiet_world (default_args ''acer'' False) (default_args ''acer'' False)
         kuka0 initial_globals)))))))) = 1 \<and>
   fst (main quiet_world (default_args ''acer'' True) (default_args ''acer'' True) kuka0
          initial_globals) = Inr () \<and>
   no_vis (default_args ''acer'' True) \<and>
   filter is_connect (fst (snd (callback quiet_world []
      (snd (snd (snd (main quiet_world (default_args ''acer'' True) (default_args ''acer'' True)
         kuka0 initial_globals))))))) = [] \<and>
   filter is_visdom_plot (fst (snd (callback quiet_world []
      (snd (snd (snd (main quiet_world (default_args ''acer'' True) (default_args ''acer'' True)
         kuka0 initial_globals))))))) = []"
proof -
  let ?m = "\<lambda>nv. main quiet_world (default_args ''acer'' nv) (default_args ''acer'' nv) kuka0
     initial_globals"
  have r: "fst (?m nv) = Inr ()" for nv
    by (simp add: main_result select_algo_result cfg_result srl_result default_args_def
          split: option.splits sum.splits)
  have m: "?m nv = (Inr (), fst (snd (?m nv)), fst (snd (snd (?m nv))), snd (snd (snd (?m nv))))"
    for nv
    using r [of nv] by (simp add: prod_eq_iff)
  have run0: "run [] (snd (snd (snd (?m nv)))) = ([], snd (snd (snd (?m nv))))" for nv
    by simp
  have s: "n_steps (snd (snd (snd (?m nv)))) = 0 \<and> LOG_INTERVAL (snd (snd (snd (?m nv)))) = 1" for nv
    by (simp add: main_state select_algo_result select_algo_intervals main_globals_state
          default_args_def initial_globals_def)
  have o: "fst (callback quiet_world [] (snd (snd (snd (?m nv))))) = Inr False" for nv
    using callback_out [OF callback_triple, of quiet_world "[]" "snd (snd (snd (?m nv)))"] s [of nv]
    by (simp add: main_state select_algo_result select_algo_intervals main_globals_state
          default_args_def initial_globals_def)
  show ?thesis
    using r [of False] r [of True] o [of False] s [of False]
      plots_when_enabled [OF m [of False] run0 [of False] callback_triple, of quiet_world "[]"]
      plots_when_enabled [OF m [of True] run0 [of True] callback_triple, of quiet_world "[]"]
    by (simp add: default_args_def)
qed

theorem a2c_without_model_skips_plots:
  "reachable (training ''a2c'' 499) \<and>
   viz (training ''a2c'' 499) = VVisdom 8097 \<and>
   (n_steps (training ''a2c'' 499) + 1) mod LOG_INTERVAL (training ''a2c'' 499) = 0 \<and>
   fst (callback (rewarding_world 5) [] (training ''a2c'' 499)) = Inl (KeyError ''model'') \<and>
   filter is_visdom_plot (fst (snd (callback (rewarding_world 5) [] (training ''a2c'' 499)))) = [] \<and>
   filter is_episode_plot (fst (snd (callback (rewarding_world 5) [] (training ''a2c'' 499)))) = []"
proof -
  have r: "reachable (training ''a2c'' 499)"
    using reachable_training [of "''a2c''" 498] by simp
  have o: "fst (callback (rewarding_world 5) [] (training ''a2c'' 499)) = Inl (KeyError ''model'')"
    using callback_out [OF callback_triple, of "rewarding_world 5" "[]" "training ''a2c'' 499"]
    by (simp add: training_def save_model_result)
  show ?thesis
    using r o callback_plots [OF callback_triple, of "rewarding_world 5" "[]" "training ''a2c'' 499"]
    by (simp add: training_def)
qed

text \<open>
  C6. \<open>saveEnvParams\<close> writes one file, \<open>LOG_DIR + "kuka_env_globals.json"\<close>, holding what
  \<open>filterJSONSerializableObjects\<close> keeps of \<open>kuka_env.getGlobals()\<close>; in \<open>main\<close> this is
  the only write to that file, of the module as \<open>main\<close> configured it.
\<close>

theorem saveEnvParams_writes_snapshot:
  "saveEnvParams w kuka g =
     [Json_dump (LOG_DIR g @ ''kuka_env_globals.json'')
        (filterJSONSerializableObjects w (getGlobals w kuka))] \<and>
   (main w args0 args kuka1 g1 = (Inr (), kuka2, es, g2) \<longrightarrow>
      filter (writes (LOG_DIR g2 @ ''kuka_env_globals.json'')) es =
        [Json_dump (LOG_DIR g2 @ ''kuka_env_globals.json'')
           (filterJSONSerializableObjects w (getGlobals w kuka2))])"
proof (intro conjI impI)
  show "saveEnvParams w kuka g =
     [Json_dump (LOG_DIR g @ ''kuka_env_globals.json'')
        (filterJSONSerializableObjects w (getGlobals w kuka))]"
    by (simp add: saveEnvParams_def)
next
  assume m: "main w args0 args kuka1 g1 = (Inr (), kuka2, es, g2)"
  show "filter (writes (LOG_DIR g2 @ ''kuka_env_globals.json'')) es =
        [Json_dump (LOG_DIR g2 @ ''kuka_env_globals.json'')
           (filterJSONSerializableObjects w (getGlobals w kuka2))]"
    by (subst main_success(5) [OF m]) simp
qed

theorem saveEnvParams_writes_snapshot_witness:
  "fst (main quiet_world (default_args ''ppo2'' False) ((default_args ''ppo2'' False)\<lparr>srl_model := ''autoencoder''\<rparr>)
          kuka0 initial_globals) = Inr () \<and>
   filter (writes ''/tmp/gym/autoencoder/ppo2/04-11-26_10h02_00/kuka_env_globals.json'')
     (fst (snd (snd (main quiet_world (default_args ''ppo2'' False)
        ((default_args ''ppo2'' False)\<lparr>srl_model := ''autoencoder''\<rparr>) kuka0 initial_globals)))) =
     [Json_dump ''/tmp/gym/autoencoder/ppo2/04-11-26_10h02_00/kuka_env_globals.json''
        [(''ACTION_REPEAT'', PyInt 1), (''USE_SRL'', PyBool True)]]"
proof -
  let ?known = "default_args ''ppo2'' False"
  let ?a = "(default_args ''ppo2'' False)\<lparr>srl_model := ''autoencoder''\<rparr>"
  let ?m = "main quiet_world ?known ?a kuka0 initial_globals"
  have sel: "fst (select_algo (algo ?known) (main_globals ?known initial_globals)) = Some (algo ?known)"
    by (simp add: select_algo_result)
  have r: "fst ?m = Inr ()"
    unfolding main_result sel by (simp add: cfg_result srl_result)
  note m = main_quadruple [OF r]
  have d: "LOG_DIR (snd (snd (snd ?m))) = ''/tmp/gym/autoencoder/ppo2/04-11-26_10h02_00/''"
    using main_success(3) [OF m] by simp
  have k: "fst (snd ?m) = kuka0\<lparr>ACTION_REPEAT := 1, USE_SRL := True,
      SRL_MODEL_PATH := Some ''srl_priors/logs/autoencoder/model.pth''\<rparr>"
    using main_success(4) [OF m] by (simp add: srl_kuka)
  note t = saveEnvParams_writes_snapshot [where w = quiet_world and kuka = kuka0
      and g = initial_globals and ?args0.0 = ?known and args = ?a
      and ?kuka1.0 = kuka0 and ?g1.0 = initial_globals and ?kuka2.0 = "fst (snd ?m)"
      and es = "fst (snd (snd ?m))" and ?g2.0 = "snd (snd (snd ?m))"]
  from t [THEN conjunct2, THEN mp, OF m]
  have "filter (writes (LOG_DIR (snd (snd (snd ?m))) @ ''kuka_env_globals.json'')) (fst (snd (snd ?m))) =
        [Json_dump (LOG_DIR (snd (snd (snd ?m))) @ ''kuka_env_globals.json'')
           (filterJSONSerializableObjects quiet_world (getGlobals quiet_world (fst (snd ?m))))]" .
  then have "filter (writes ''/tmp/gym/autoencoder/ppo2/04-11-26_10h02_00/kuka_env_globals.json'')
      (fst (snd (snd ?m))) =
     [Json_dump ''/tmp/gym/autoencoder/ppo2/04-11-26_10h02_00/kuka_env_globals.json''
        [(''ACTION_REPEAT'', PyInt 1), (''USE_SRL'', PyBool True)]]"
    unfolding d k by simp
  with r show ?thesis
    by blast
qed

text \<open>
  C7 (amended). For every parsed command line whose \<open>--srl-model\<close> is empty, is
  \<open>ground_truth\<close>, or has an entry in the table of SRL models (with \<open>log_folder\<close>), \<open>main\<close>
  resolves the module named by \<open>--algo\<close> (acer sets \<open>LOG_INTERVAL\<close> to 1 and
  \<open>SAVE_INTERVAL\<close> to 20, ppo2 sets \<open>LOG_INTERVAL\<close> to 10 and nothing else is overridden),
  configures the environment and log folder, writes \<open>args.json\<close> and
  \<open>kuka_env_globals.json\<close>, sets the global seed and then calls the selected algorithm's
  \<open>main(args, callback)\<close>, once and as its last action.
\<close>

theorem main_delegates_last:
  assumes "algo args0 \<in> {''acer'', ''deepq'', ''a2c'', ''ppo2'', ''random_search'', ''random_agent''}"
    and "srl_model args = '''' \<or> srl_model args = ''ground_truth'' \<or>
         map_of (models w) (srl_model args) \<noteq> None \<and> map_of (models w) ''log_folder'' \<noteq> None"
  shows "\<exists>kuka' es g'.
           main w args0 args kuka g = (Inr (), kuka', es, g') \<and>
           es =
             [Print_green (agent_banner (algo args0)), Custom_arguments (algo args0), Parse_args,
              Make_dirs (LOG_DIR g'),
              Json_dump (LOG_DIR g' @ ''args.json'')
                (filterJSONSerializableObjects w (vars (args\<lparr>log_dir := LOG_DIR g'\<rparr>))),
              Print_yellow ''Arguments:'',
              Pprint (filterJSONSerializableObjects w (vars (args\<lparr>log_dir := LOG_DIR g'\<rparr>))),
              Print_yellow ''Kuka Env Globals:'',
              Pprint (filterJSONSerializableObjects w (getGlobals w kuka')),
              Json_dump (LOG_DIR g' @ ''kuka_env_globals.json'')
                (filterJSONSerializableObjects w (getGlobals w kuka')),
              Set_global_seeds (seed args),
              Algo_main (algo args0) (args\<lparr>log_dir := LOG_DIR g'\<rparr>)] \<and>
           last es = Algo_main (algo args0) (args\<lparr>log_dir := LOG_DIR g'\<rparr>) \<and>
           length (filter is_algo_main es) = 1 \<and>
           ALGO g' = algo args0 \<and>
           LOG_INTERVAL g' =
             (if algo args0 = ''acer'' then 1 else if algo args0 = ''ppo2'' then 10
              else LOG_INTERVAL g) \<and>
           SAVE_INTERVAL g' = (if algo args0 = ''acer'' then 20 else SAVE_INTERVAL g)"
proof -
  let ?m = "main w args0 args kuka g"
  let ?g1 = "snd (select_algo (algo args0) (main_globals args0 g))"
  have sel: "fst (select_algo (algo args0) (main_globals args0 g)) = Some (algo args0)"
    using assms(1) by (auto simp add: select_algo_result)
  have srl: "fst (configure_srl w args (kuka\<lparr>ACTION_REPEAT := action_repeat args0\<rparr>) ?g1) = None"
    using assms(2) by (rule configure_supported)
  have r: "fst ?m = Inr ()"
    unfolding main_result sel by (simp add: cfg_result srl)
  note m = main_quadruple [OF r]
  have s: "snd (snd (snd ?m)) =
      snd (snd (snd (snd (configureEnvAndLogFolder w args (kuka\<lparr>ACTION_REPEAT := action_repeat args0\<rparr>) ?g1))))"
    unfolding main_state sel by simp
  have i: "ALGO (snd (snd (snd ?m))) = algo args0 \<and>
      LOG_INTERVAL (snd (snd (snd ?m))) =
             (if algo args0 = ''acer'' then 1 else if algo args0 = ''ppo2'' then 10
              else LOG_INTERVAL g) \<and>
      SAVE_INTERVAL (snd (snd (snd ?m))) = (if algo args0 = ''acer'' then 20 else SAVE_INTERVAL g)"
    unfolding s by (simp add: select_algo_intervals main_globals_state)
  show ?thesis
    using m main_success(5) [OF m] i
    by (intro exI [of _ "fst (snd ?m)"] exI [of _ "fst (snd (snd ?m))"]
          exI [of _ "snd (snd (snd ?m))"]) simp
qed

theorem main_delegates_last_witness:
  "algo (default_args ''ppo2'' True) \<in> {''acer'', ''deepq'', ''a2c'', ''ppo2'', ''random_search'', ''random_agent''} \<and>
   srl_model (default_args ''ppo2'' True) = '''' \<and>
   fst (main quiet_world (default_args ''ppo2'' True) (default_args ''ppo2'' True) kuka0 initial_globals) =
     Inr () \<and>
   last (fst (snd (snd (main quiet_world (default_args ''ppo2'' True) (default_args ''ppo2'' True)
      kuka0 initial_globals)))) =
     Algo_main ''ppo2'' ((default_args ''ppo2'' True)\<lparr>log_dir := ''/tmp/gym/raw_pixels/ppo2/04-11-26_10h02_00/''\<rparr>) \<and>
   length (filter is_algo_main (fst (snd (snd (main quiet_world (default_args ''ppo2'' True)
      (default_args ''ppo2'' True) kuka0 initial_globals))))) = 1 \<and>
   LOG_INTERVAL (snd (snd (snd (main quiet_world (default_args ''ppo2'' True)
      (default_args ''ppo2'' True) kuka0 initial_globals)))) = 10 \<and>
   SAVE_INTERVAL (snd (snd (snd (main quiet_world (default_args ''ppo2'' True)
      (default_args ''ppo2'' True) kuka0 initial_globals)))) = 500"
proof -
  let ?a = "default_args ''ppo2'' True"
  let ?m = "main quiet_world ?a ?a kuka0 initial_globals"
  have a: "algo ?a \<in> {''acer'', ''deepq'', ''a2c'', ''ppo2'', ''random_search'', ''random_agent''}"
    by simp
  have e: "srl_model ?a = ''''"
    by simp
  from main_delegates_last [OF a disjI1 [OF e], of quiet_world kuka0 initial_globals]
  obtain kuka' es g' where m: "?m = (Inr (), kuka', es, g')"
    and l: "last es = Algo_main (algo ?a) (?a\<lparr>log_dir := LOG_DIR g'\<rparr>)"
    and n: "length (filter is_algo_main es) = 1"
    and i: "LOG_INTERVAL g' = (if algo ?a = ''acer'' then 1 else if algo ?a = ''ppo2'' then 10
              else LOG_INTERVAL initial_globals)"
      "SAVE_INTERVAL g' = (if algo ?a = ''acer'' then 20 else SAVE_INTERVAL initial_globals)"
    by blast
  have d: "LOG_DIR g' = ''/tmp/gym/raw_pixels/ppo2/04-11-26_10h02_00/''"
    using main_success(3) [OF m] by simp
  have i': "LOG_INTERVAL g' = 10" "SAVE_INTERVAL g' = 500"
    using i by (simp_all add: initial_globals_def)
  have l': "last es = Algo_main ''ppo2'' (?a\<lparr>log_dir := ''/tmp/gym/raw_pixels/ppo2/04-11-26_10h02_00/''\<rparr>)"
    using l unfolding d by simp
  show ?thesis
    unfolding m fst_conv snd_conv using a e l' n i' by blast
qed

theorem unsupported_srl_model_stops_main:
  "algo (default_args ''deepq'' False) \<in> {''acer'', ''deepq'', ''a2c'', ''ppo2'', ''random_search'', ''random_agent''} \<and>
   fst (main quiet_world (default_args ''deepq'' False)
          ((default_args ''deepq'' False)\<lparr>srl_model := ''supervised''\<rparr>) kuka0 initial_globals) =
     Inl (ValueError ''Unsupported value for srl-model: supervised'') \<and>
   filter is_algo_main (fst (snd (snd (main quiet_world (default_args ''deepq'' False)
          ((default_args ''deepq'' False)\<lparr>srl_model := ''supervised''\<rparr>) kuka0 initial_globals)))) = []"
proof -
  let ?known = "default_args ''deepq'' False"
  let ?a = "(default_args ''deepq'' False)\<lparr>srl_model := ''supervised''\<rparr>"
  let ?m = "main quiet_world ?known ?a kuka0 initial_globals"
  have sel: "fst (select_algo (algo ?known) (main_globals ?known initial_globals)) = Some (algo ?known)"
    by (simp add: select_algo_result)
  have srl: "fst (configure_srl quiet_world ?a k g) =
      Some (ValueError ''Unsupported value for srl-model: supervised'')" for k g
    by (simp add: srl_result)
  have r: "fst ?m = Inl (ValueError ''Unsupported value for srl-model: supervised'')"
    unfolding main_result sel by (simp add: cfg_result srl)
  have t: "fst (snd (snd ?m)) =
      [Print_green (agent_banner (algo ?known)), Custom_arguments (algo ?known), Parse_args]"
    unfolding main_trace Let_def sel by (simp add: cfg_result cfg_trace srl)
  have n: "filter is_algo_main (fst (snd (snd ?m))) = []"
    unfolding t by simp
  have a: "algo ?known \<in> {''acer'', ''deepq'', ''a2c'', ''ppo2'', ''random_search'', ''random_agent''}"
    by simp
  show ?thesis
    using a r n by blast
qed

text \<open>
  C9. In a run, from the globals the module was loaded with or those \<open>main\<close> left, the
  first invocation of the callback writes the filtered \<open>_locals\<close> to
  \<open>LOG_DIR + "rl_locals.json"\<close> and sets \<open>params_saved\<close>; no later invocation writes
  that file, so it is written exactly once.
\<close>

theorem rl_locals_written_once:
  assumes "started g0" and "run ((w, locals) # later) g0 = (es, g)"
  shows "filter (writes (LOG_DIR g0 @ ''rl_locals.json'')) es =
           [Json_dump (LOG_DIR g0 @ ''rl_locals.json'') (filterJSONSerializableObjects w locals)] \<and>
         params_saved g"
proof -
  from assms(2) obtain out es1 g1 es2 where
    c: "callback w locals g0 = (out, es1, g1)" and r: "run later g1 = (es2, g)"
    and es: "es = es1 @ es2"
    by (rule run_step)
  have fresh: "\<not> params_saved g0"
    using started_facts [OF assms(1)] by simp
  have first: "filter (writes (LOG_DIR g0 @ ''rl_locals.json'')) es1 =
      [Json_dump (LOG_DIR g0 @ ''rl_locals.json'') (filterJSONSerializableObjects w locals)]"
    using callback_writes [OF c] fresh by simp
  have saved: "params_saved g1" and dir: "LOG_DIR g1 = LOG_DIR g0"
    using callback_frame [OF c] by simp_all
  have rest: "filter (writes (LOG_DIR g0 @ ''rl_locals.json'')) es2 = []"
    using run_saved [OF r saved] dir by simp
  show ?thesis
    using first rest es run_frame [OF r] saved by simp
qed

theorem rl_locals_written_once_witness:
  "started ((training ''acer'' 0)\<lparr>viz := VNone, params_saved := False\<rparr>) \<and>
   filter (writes ''/tmp/gym/raw_pixels/acer/04-11-26_10h02_00/rl_locals.json'')
     (fst (run [(quiet_world, [(''model'', PyModel 1), (''nsteps'', PyInt 20)]),
                (quiet_world, [(''model'', PyModel 1), (''nsteps'', PyInt 21)])]
            ((training ''acer'' 0)\<lparr>viz := VNone, params_saved := False\<rparr>))) =
     [Json_dump ''/tmp/gym/raw_pixels/acer/04-11-26_10h02_00/rl_locals.json''
        [(''nsteps'', PyInt 20)]]"
proof -
  have s: "started ((training ''acer'' 0)\<lparr>viz := VNone, params_saved := False\<rparr>)"
    by (rule started_default) simp
  show ?thesis
    using s rl_locals_written_once [OF s surjective_pairing,
        of quiet_world "[(''model'', PyModel 1), (''nsteps'', PyInt 20)]"
           "[(quiet_world, [(''model'', PyModel 1), (''nsteps'', PyInt 21)])]"]
    by (simp add: training_def quiet_world_def)
qed

text \<open>
  C10 (amended). An invocation of the callback in a run that does not raise returns
  False with \<open>n_steps\<close> incremented by exactly 1, whichever of parameter saving,
  evaluation and plotting it went through. It raises, leaving \<open>n_steps\<close> unchanged,
  exactly when a checkpoint is due (a save step with a strictly greater mean reward,
  \<open>ALGO\<close> one of deepq, acer, a2c, ppo2) and \<open>_locals\<close> does not hold an object with a
  \<open>save\<close> method under the key of the model: KeyError when the key is missing,
  AttributeError when the value found has no attribute \<open>save\<close>.
\<close>

theorem callback_returns_false:
  assumes "reachable g" and "callback w locals g = (out, es, g')"
  shows "(if (n_steps g + 1) mod SAVE_INTERVAL g = 0 \<and>
             py_gt (mean_reward w g) (best_mean_reward g) \<and>
             ALGO g \<in> {''deepq'', ''acer'', ''a2c'', ''ppo2''}
          then (case map_of locals (if ALGO g = ''deepq'' then ''act'' else ''model'') of
                  None \<Rightarrow>
                    out = Inl (KeyError (if ALGO g = ''deepq'' then ''act'' else ''model'')) \<and>
                    n_steps g' = n_steps g
                | Some m \<Rightarrow>
                    if has_save m then out = Inr False \<and> n_steps g' = n_steps g + 1
                    else out = Inl (AttributeError ''save'') \<and> n_steps g' = n_steps g)
          else out = Inr False \<and> n_steps g' = n_steps g + 1)"
proof -
  have nz: "SAVE_INTERVAL g \<noteq> 0" "LOG_INTERVAL g \<noteq> 0"
    using assms(1) by (rule reachable_intervals)+
  have out: "out =
     (if (n_steps g + 1) mod SAVE_INTERVAL g = 0 \<and>
         py_gt (mean_reward w g) (best_mean_reward g) \<and> fst (save_model locals g) \<noteq> None
      then Inl (the (fst (save_model locals g))) else Inr False)"
    using callback_out [OF assms(2)] nz by simp
  have raises: "fst (save_model locals g) =
     (if ALGO g \<in> {''deepq'', ''acer'', ''a2c'', ''ppo2''} then
        (case map_of locals (if ALGO g = ''deepq'' then ''act'' else ''model'') of
           None \<Rightarrow> Some (KeyError (if ALGO g = ''deepq'' then ''act'' else ''model''))
         | Some m \<Rightarrow> if has_save m then None else Some (AttributeError ''save''))
      else None)"
    by (rule save_model_result)
  show ?thesis
  proof (cases "(n_steps g + 1) mod SAVE_INTERVAL g = 0 \<and>
             py_gt (mean_reward w g) (best_mean_reward g) \<and>
             ALGO g \<in> {''deepq'', ''acer'', ''a2c'', ''ppo2''}")
    case True
    then show ?thesis
      unfolding out callback_n_steps [OF assms(2)] out raises
      by (simp split: option.splits)
  next
    case False
    then show ?thesis
      unfolding out callback_n_steps [OF assms(2)] out raises
      by auto
  qed
qed

theorem callback_returns_false_witness:
  "reachable (training ''acer'' 19) \<and>
   fst (callback (rewarding_world 5) [(''model'', PyModel 1)] (training ''acer'' 19)) = Inr False \<and>
   n_steps (snd (snd (callback (rewarding_world 5) [(''model'', PyModel 1)] (training ''acer'' 19)))) = 20 \<and>
   reachable (training ''deepq'' 499) \<and>
   fst (callback (rewarding_world 5) [(''act'', PyNone)] (training ''deepq'' 499)) =
     Inl (AttributeError ''save'') \<and>
   n_steps (snd (snd (callback (rewarding_world 5) [(''act'', PyNone)] (training ''deepq'' 499)))) = 499"
proof -
  have r: "reachable (training ''acer'' 19)"
    using reachable_training [of "''acer''" 18] by simp
  have q: "reachable (training ''deepq'' 499)"
    using reachable_training [of "''deepq''" 498] by simp
  have model: "fst (callback (rewarding_world 5) [(''model'', PyModel 1)] (training ''acer'' 19)) = Inr False \<and>
   n_steps (snd (snd (callback (rewarding_world 5) [(''model'', PyModel 1)] (training ''acer'' 19)))) = 20"
    using callback_returns_false [OF r callback_triple,
        of "rewarding_world 5" "[(''model'', PyModel 1)]"]
    by (simp add: training_def)
  have none: "fst (callback (rewarding_world 5) [(''act'', PyNone)] (training ''deepq'' 499)) =
     Inl (AttributeError ''save'') \<and>
   n_steps (snd (snd (callback (rewarding_world 5) [(''act'', PyNone)] (training ''deepq'' 499)))) = 499"
    using callback_returns_false [OF q callback_triple,
        of "rewarding_world 5" "[(''act'', PyNone)]"]
    by (simp add: training_def)
  show ?thesis
    using r q model none by blast
qed

theorem deepq_without_act_raises:
  "reachable (training ''deepq'' 499) \<and>
   fst (callback (rewarding_world 5) [(''model'', PyModel 1)] (training ''deepq'' 499)) =
     Inl (KeyError ''act'') \<and>
   n_steps (snd (snd (callback (rewarding_world 5) [(''model'', PyModel 1)] (training ''deepq'' 499)))) = 499"
proof -
  have r: "reachable (training ''deepq'' 499)"
    using reachable_training [of "''deepq''" 498] by simp
  have o: "fst (callback (rewarding_world 5) [(''model'', PyModel 1)] (training ''deepq'' 499)) =
     Inl (KeyError ''act'')"
    using callback_out [OF callback_triple, of "rewarding_world 5" "[(''model'', PyModel 1)]"
        "training ''deepq'' 499"]
    by (simp add: training_def save_model_result)
  show ?thesis
    using r o callback_n_steps [OF callback_triple, of "rewarding_world 5" "[(''model'', PyModel 1)]"
        "training ''deepq'' 499"]
    by (simp add: training_def)
qed

end
